theory Spec2Isabelle
  imports Complex_Main
begin

section \<open>JavaScript values read from the language model's output\<close>

text \<open>
  The workflows parse the model's text with \<open>JSON.parse\<close> and read properties of the
  parsed value through \<open>any\<close>. A property is absent (\<open>undefined\<close>), \<open>null\<close>, or
  holds a value of the JSON type that the prompt asks for (a number for a confidence, a
  boolean for a flag, a string for a text).
\<close>

datatype 'a field = Undefined | Null | Present 'a

text \<open>
  A JavaScript number is a real or \<open>NaN\<close> (the result of arithmetic on \<open>undefined\<close>);
  rounding of binary floating point is not modelled.
\<close>

datatype jsnum = Num real | NaN

fun toNumber :: "real field \<Rightarrow> jsnum" where
  "toNumber Undefined = NaN"
| "toNumber Null = Num 0"
| "toNumber (Present r) = Num r"

fun truthyNum :: "real field \<Rightarrow> bool" where
  "truthyNum (Present r) = (r \<noteq> 0)"
| "truthyNum Undefined = False"
| "truthyNum Null = False"

fun truthyBool :: "bool field \<Rightarrow> bool" where
  "truthyBool (Present b) = b"
| "truthyBool Undefined = False"
| "truthyBool Null = False"

text \<open>\<open>x || d\<close> for a numeric property \<open>x\<close> and a numeric default \<open>d\<close>.\<close>

definition orDefault :: "real field \<Rightarrow> real \<Rightarrow> jsnum" where
  "orDefault x d = (if truthyNum x then toNumber x else Num d)"

fun js_mul :: "jsnum \<Rightarrow> jsnum \<Rightarrow> jsnum" where
  "js_mul (Num a) (Num b) = Num (a * b)"
| "js_mul NaN y = NaN"
| "js_mul x NaN = NaN"

fun js_add :: "jsnum \<Rightarrow> jsnum \<Rightarrow> jsnum" where
  "js_add (Num a) (Num b) = Num (a + b)"
| "js_add NaN y = NaN"
| "js_add x NaN = NaN"

text \<open>\<open>Math.min\<close>: \<open>NaN\<close> as soon as one argument is \<open>NaN\<close>.\<close>

fun js_min :: "jsnum \<Rightarrow> jsnum \<Rightarrow> jsnum" where
  "js_min (Num a) (Num b) = Num (min a b)"
| "js_min NaN y = NaN"
| "js_min x NaN = NaN"

text \<open>\<open>x < y\<close>: false as soon as one side is \<open>NaN\<close>.\<close>

fun js_lt :: "jsnum \<Rightarrow> jsnum \<Rightarrow> bool" where
  "js_lt (Num a) (Num b) = (a < b)"
| "js_lt NaN y = False"
| "js_lt x NaN = False"

text \<open>\<open>x > y\<close>.\<close>

definition js_gt :: "jsnum \<Rightarrow> jsnum \<Rightarrow> bool" where
  "js_gt x y = js_lt y x"

text \<open>String conversion of a text property, as \<open>+\<close> with a string does it.\<close>

fun toString :: "string field \<Rightarrow> string" where
  "toString Undefined = ''undefined''"
| "toString Null = ''null''"
| "toString (Present s) = s"

text \<open>The decimal digits of an array index, for \<open>`suggestion_${index}`\<close>.\<close>

fun digits :: "nat \<Rightarrow> string" where
  "digits n = (if n < 10 then [''0123456789'' ! n]
               else digits (n div 10) @ [''0123456789'' ! (n mod 10)])"

declare digits.simps [simp del]

section \<open>Data model\<close>

datatype ConversationStatus =
  Green | Yellow | Red | ResolvedAi | ResolvedHuman | TypingAi | TypingUser | ActiveHumanNeeded

text \<open>
  \<open>AISuggestion\<close>: the properties \<open>id\<close>, \<open>text\<close> and \<open>confidence\<close>. The text and the
  confidence of a generated suggestion are copied from the model's output as they are.
\<close>

record AISuggestion =
  sid :: string
  stext :: "string field"
  sconfidence :: "real field"

record source_doc =
  documentId :: string
  fileName :: string
  chunkCount :: nat

datatype message = HumanMessage string | AIMessage string

text \<open>
  \<open>HandoffWorkflowState\<close>. The flag \<open>needsHumanIntervention\<close> holds the truthiness of
  the stored value, which is all that the code reads of it.
\<close>

record HandoffWorkflowState =
  conversationId :: string
  companyId :: string
  userQuery :: string
  messages :: "message list"
  currentStatus :: ConversationStatus
  confidence :: jsnum
  retrievedContext :: "string list"
  suggestions :: "AISuggestion list"
  needsHumanIntervention :: bool
  finalResponse :: "string field"
  sources :: "source_doc list"
  escalationReason :: "string field"
  agentAssigned :: bool

text \<open>What the callers of the three workflows receive.\<close>

record WorkflowResult =
  res_response :: "string field"
  res_status :: ConversationStatus
  res_confidence :: jsnum
  res_suggestions :: "AISuggestion list"
  res_sources :: "source_doc list option"

section \<open>Collaborators\<close>

text \<open>
  A call of the language model followed by the parse of its text either throws (the call
  rejects, or the text is not JSON), or yields \<open>null\<close>, or yields a value whose
  properties can be read.
\<close>

datatype 'a llm_result = Throws | ParsedNull | Parsed 'a

text \<open>The analysis payload as the handoff workflow reads it (the property name is the source's).\<close>

record analysis_json =
  aiConfidence :: "real field"
  needsImmedateHuman :: "bool field"
  reasoning :: "string field"

record response_json =
  response :: "string field"
  reportedConfidence :: "real field"
  suggestsHumanHelp :: "bool field"

record raw_suggestion =
  rawText :: "string field"
  rawConfidence :: "real field"

text \<open>The parsed suggestions: not an array, or an array whose elements may be \<open>null\<close>.\<close>

datatype suggestions_json = NotArray | Array "raw_suggestion option list"

datatype search_result = SearchThrows | SearchResult "string list" "source_doc list"

text \<open>
  The status update of the persistence layer completes, reports an error in its result,
  or rejects.
\<close>

datatype update_result = UpdateOk | UpdateError | UpdateThrows

text \<open>What the collaborators answer during one turn; each is called at most once per turn.\<close>

record ('a, 'r) env =
  analysisReply :: "'a llm_result"
  searchReply :: search_result
  responseReply :: 'r
  suggestionsReply :: "suggestions_json llm_result"
  updateReply :: update_result

type_synonym handoff_env = "(analysis_json, response_json llm_result) env"

text \<open>The calls made so far, and the status column of the conversations table.\<close>

datatype call = CallAnalyzer | CallRetriever | CallGenerator | CallSuggester | CallPersistence

record world =
  calls :: "call list"
  conversations :: "string \<rightharpoonup> ConversationStatus"

definition called :: "call \<Rightarrow> world \<Rightarrow> world" where
  "called c w = w\<lparr>calls := calls w @ [c]\<rparr>"

text \<open>A \<open>try\<close> block with its \<open>catch\<close> handler.\<close>

definition try_catch :: "'e + 'a \<Rightarrow> ('e \<Rightarrow> 'a) \<Rightarrow> 'a" where
  "try_catch body handler = (case body of Inl e \<Rightarrow> handler e | Inr a \<Rightarrow> a)"

section \<open>The handoff workflow\<close>

definition analyzeQuery_try ::
  "analysis_json llm_result \<Rightarrow> HandoffWorkflowState \<Rightarrow> unit + HandoffWorkflowState" where
  "analyzeQuery_try reply state =
     (case reply of
        Throws \<Rightarrow> Inl ()
      | ParsedNull \<Rightarrow> Inl ()
      | Parsed analysis \<Rightarrow>
          Inr (state\<lparr>confidence := orDefault (aiConfidence analysis) 0.8,
                     needsHumanIntervention := truthyBool (needsImmedateHuman analysis),
                     escalationReason :=
                       (if truthyBool (needsImmedateHuman analysis) then reasoning analysis
                        else Present [])\<rparr>))"

fun analyzeQuery ::
  "handoff_env \<Rightarrow> HandoffWorkflowState \<times> world \<Rightarrow> HandoffWorkflowState \<times> world" where
  "analyzeQuery e (state, w) =
     (try_catch (analyzeQuery_try (analysisReply e) state)
        (\<lambda>_. state\<lparr>confidence := Num 0.5,
                    needsHumanIntervention := False,
                    escalationReason := Present ''Analysis failed - proceeding with caution''\<rparr>),
      called CallAnalyzer w)"

definition fallbackContext :: "string list" where
  "fallbackContext =
     [''Company policy: We offer 24/7 customer support for all premium users.'',
      ''FAQ: Account issues can usually be resolved by clearing browser cache.'',
      ''Support hours: Our human agents are available Monday-Friday 9AM-6PM EST.'']"

fun retrieveContext ::
  "('a, response_json llm_result) env \<Rightarrow> HandoffWorkflowState \<times> world
     \<Rightarrow> HandoffWorkflowState \<times> world" where
  "retrieveContext e (state, w) =
     ((case searchReply e of
         SearchResult chunks srcs \<Rightarrow>
           if length chunks > 0
           then state\<lparr>retrievedContext := chunks, sources := srcs\<rparr>
           else state\<lparr>retrievedContext := fallbackContext, sources := []\<rparr>
       | SearchThrows \<Rightarrow>
           state\<lparr>retrievedContext :=
                   [''Error accessing knowledge base - escalating to human support''],
                 sources := [],
                 confidence := js_min (js_mul (confidence state) (Num 0.7)) (Num 0.5)\<rparr>),
      called CallRetriever w)"

definition generateResponse_try ::
  "response_json llm_result \<Rightarrow> HandoffWorkflowState \<Rightarrow> unit + HandoffWorkflowState" where
  "generateResponse_try reply state =
     (case reply of
        Throws \<Rightarrow> Inl ()
      | ParsedNull \<Rightarrow> Inl ()
      | Parsed aiResponse \<Rightarrow>
          (let combinedConfidence =
                 js_min (js_add (js_mul (confidence state) (Num 0.6))
                                (js_mul (toNumber (reportedConfidence aiResponse)) (Num 0.4)))
                        (Num 0.95)
           in Inr (state\<lparr>finalResponse := response aiResponse,
                         confidence := combinedConfidence,
                         needsHumanIntervention :=
                           (needsHumanIntervention state
                            \<or> truthyBool (suggestsHumanHelp aiResponse))\<rparr>)))"

definition troubleConnecting :: string where
  "troubleConnecting =
     ''I'm having trouble processing your request. Let me connect you with a human agent.''"

fun generateResponse ::
  "('a, response_json llm_result) env \<Rightarrow> HandoffWorkflowState \<times> world
     \<Rightarrow> HandoffWorkflowState \<times> world" where
  "generateResponse e (state, w) =
     (try_catch (generateResponse_try (responseReply e) state)
        (\<lambda>_. state\<lparr>finalResponse := Present troubleConnecting,
                    confidence := Num 0.3,
                    needsHumanIntervention := True,
                    escalationReason := Present ''AI response generation failed''\<rparr>),
      called CallGenerator w)"

text \<open>
  \<open>suggestions.map((s, index) => ...)\<close>: reading a property of a \<open>null\<close> element
  throws.
\<close>

fun mapSuggestions :: "raw_suggestion option list \<Rightarrow> nat \<Rightarrow> unit + AISuggestion list" where
  "mapSuggestions [] index = Inr []"
| "mapSuggestions (None # rest) index = Inl ()"
| "mapSuggestions (Some s # rest) index =
     (case mapSuggestions rest (Suc index) of
        Inl u \<Rightarrow> Inl u
      | Inr mapped \<Rightarrow>
          Inr (\<lparr>sid = ''suggestion_'' @ digits index,
                stext = rawText s,
                sconfidence = rawConfidence s\<rparr> # mapped))"

definition parseSuggestions :: "suggestions_json llm_result \<Rightarrow> unit + AISuggestion list" where
  "parseSuggestions reply =
     (case reply of
        Throws \<Rightarrow> Inl ()
      | ParsedNull \<Rightarrow> Inl ()
      | Parsed NotArray \<Rightarrow> Inl ()
      | Parsed (Array items) \<Rightarrow> mapSuggestions items 0)"

definition fallback_suggestion :: AISuggestion where
  "fallback_suggestion =
     \<lparr>sid = ''fallback_suggestion'',
      stext = Present ''Review the conversation context and provide personalized assistance'',
      sconfidence = Present 0.8\<rparr>"

fun generateSuggestions ::
  "('a, response_json llm_result) env \<Rightarrow> HandoffWorkflowState \<times> world
     \<Rightarrow> AISuggestion list \<times> world" where
  "generateSuggestions e (state, w) =
     (try_catch (parseSuggestions (suggestionsReply e)) (\<lambda>_. [fallback_suggestion]),
      called CallSuggester w)"

definition escalate_immediately :: AISuggestion where
  "escalate_immediately =
     \<lparr>sid = ''escalate_immediately'',
      stext = Present ''Escalate to human agent immediately'',
      sconfidence = Present 0.95\<rparr>"

definition review_context :: AISuggestion where
  "review_context =
     \<lparr>sid = ''review_context'',
      stext = Present ''Review available knowledge base context'',
      sconfidence = Present 0.8\<rparr>"

fun determineStatus ::
  "('a, response_json llm_result) env \<Rightarrow> HandoffWorkflowState \<times> world
     \<Rightarrow> HandoffWorkflowState \<times> world" where
  "determineStatus e (state, w) =
     (if needsHumanIntervention state \<or> js_lt (confidence state) (Num 0.5)
      then (state\<lparr>currentStatus := Red,
                  suggestions := [escalate_immediately, review_context]\<rparr>, w)
      else if js_lt (confidence state) (Num 0.7)
      then (case generateSuggestions e (state, w) of
              (generated, w') \<Rightarrow> (state\<lparr>currentStatus := Yellow, suggestions := generated\<rparr>, w'))
      else (state\<lparr>currentStatus := Green, suggestions := []\<rparr>, w))"

definition handoffSentence :: string where
  "handoffSentence =
     ''\<newline>\<newline>I'm connecting you with a human agent who can better assist you.''"

text \<open>
  \<open>supabaseAdmin.from('conversations').update(...).eq('id', ...)\<close>: a completed update
  writes the status of the row when there is one; an update that reports an error or
  rejects writes nothing.
\<close>

definition updateRow ::
  "string \<Rightarrow> ConversationStatus \<Rightarrow> (string \<rightharpoonup> ConversationStatus)
     \<Rightarrow> (string \<rightharpoonup> ConversationStatus)" where
  "updateRow cid st table = (if table cid = None then table else table(cid \<mapsto> st))"

fun handleHandoff_try ::
  "('a, response_json llm_result) env \<Rightarrow> HandoffWorkflowState \<times> world
     \<Rightarrow> world + HandoffWorkflowState \<times> world" where
  "handleHandoff_try e (state, w) =
     (case updateReply e of
        UpdateThrows \<Rightarrow> Inl (called CallPersistence w)
      | outcome \<Rightarrow>
          (let w' = called CallPersistence
                      (if outcome = UpdateOk
                       then w\<lparr>conversations :=
                                updateRow (conversationId state) (currentStatus state)
                                  (conversations w)\<rparr>
                       else w)
           in if currentStatus state = Red
              then Inr (state\<lparr>agentAssigned := False,
                              finalResponse :=
                                Present (toString (finalResponse state) @ handoffSentence)\<rparr>, w')
              else Inr (state, w')))"

fun handleHandoff ::
  "('a, response_json llm_result) env \<Rightarrow> HandoffWorkflowState \<times> world
     \<Rightarrow> HandoffWorkflowState \<times> world" where
  "handleHandoff e (state, w) =
     try_catch (handleHandoff_try e (state, w)) (\<lambda>w'. (state, w'))"

definition initialState ::
  "string \<Rightarrow> string \<Rightarrow> string \<Rightarrow> message list \<Rightarrow> HandoffWorkflowState" where
  "initialState cid userMessage company previousMessages =
     \<lparr>conversationId = cid,
      companyId = company,
      userQuery = userMessage,
      messages = previousMessages @ [HumanMessage userMessage],
      currentStatus = Green,
      confidence = Num 0.8,
      retrievedContext = [],
      suggestions = [],
      needsHumanIntervention = False,
      finalResponse = Present [],
      sources = [],
      escalationReason = Present [],
      agentAssigned = False\<rparr>"

definition earlyEscalationMessage :: string where
  "earlyEscalationMessage =
     ''This request requires immediate human assistance. I'm connecting you with an agent.''"

definition error_suggestion :: AISuggestion where
  "error_suggestion =
     \<lparr>sid = ''error_suggestion'',
      stext = Present ''Technical issue detected - escalate to human support immediately'',
      sconfidence = Present 1.0\<rparr>"

definition technicalDifficulties :: string where
  "technicalDifficulties =
     ''I'm experiencing technical difficulties. Please try again or contact human support.''"

text \<open>The state that the \<open>catch\<close> of an orchestrator builds from the state it holds.\<close>

definition errorState :: "HandoffWorkflowState \<Rightarrow> HandoffWorkflowState" where
  "errorState state =
     state\<lparr>currentStatus := Red,
           confidence := Num 0.0,
           finalResponse := Present technicalDifficulties,
           suggestions := [error_suggestion]\<rparr>"

text \<open>
  The \<open>try\<close> block of \<open>runHandoffWorkflow\<close>. Each step catches what it throws, so the
  block has no throwing branch of its own; \<open>Inl\<close> carries the state held at a throw.
\<close>

definition runHandoffWorkflow_try ::
  "handoff_env \<Rightarrow> HandoffWorkflowState \<times> world
     \<Rightarrow> HandoffWorkflowState \<times> world + HandoffWorkflowState \<times> world" where
  "runHandoffWorkflow_try e start =
     (case analyzeQuery e start of
        (state, w) \<Rightarrow>
          if needsHumanIntervention state \<and> js_lt (confidence state) (Num 0.3)
          then Inr (handleHandoff e
                      (state\<lparr>currentStatus := Red,
                             finalResponse := Present earlyEscalationMessage\<rparr>, w))
          else (case determineStatus e (generateResponse e (retrieveContext e (state, w))) of
                  (state', w') \<Rightarrow>
                    if currentStatus state' = Red
                    then Inr (handleHandoff e (state', w'))
                    else Inr (state', w')))"

definition runHandoffWorkflow ::
  "handoff_env \<Rightarrow> string \<Rightarrow> string \<Rightarrow> string \<Rightarrow> message list \<Rightarrow> world
     \<Rightarrow> HandoffWorkflowState \<times> world" where
  "runHandoffWorkflow e cid userMessage company previousMessages w =
     try_catch
       (runHandoffWorkflow_try e (initialState cid userMessage company previousMessages, w))
       (\<lambda>(state, w'). (errorState state, w'))"

definition toResult :: "HandoffWorkflowState \<Rightarrow> WorkflowResult" where
  "toResult result =
     \<lparr>res_response = finalResponse result,
      res_status = currentStatus result,
      res_confidence = confidence result,
      res_suggestions = suggestions result,
      res_sources = (if length (sources result) > 0 then Some (sources result) else None)\<rparr>"

definition processUserMessageWithHandoff ::
  "handoff_env \<Rightarrow> string \<Rightarrow> string \<Rightarrow> string \<Rightarrow> message list \<Rightarrow> world
     \<Rightarrow> WorkflowResult \<times> world" where
  "processUserMessageWithHandoff e cid userMessage company previousMessages w =
     (case runHandoffWorkflow e cid userMessage company previousMessages w of
        (result, w') \<Rightarrow> (toResult result, w'))"

section \<open>Strings\<close>

text \<open>
  Texts are strings of ASCII characters; \<open>toLowerCase\<close> maps the letters \<open>A\<close> to
  \<open>Z\<close> and leaves every other character as it is.
\<close>

definition lowerChar :: "char \<Rightarrow> char" where
  "lowerChar c =
     (case map_of (zip ''ABCDEFGHIJKLMNOPQRSTUVWXYZ'' ''abcdefghijklmnopqrstuvwxyz'') c of
        Some l \<Rightarrow> l
      | None \<Rightarrow> c)"

definition toLowerCase :: "string \<Rightarrow> string" where
  "toLowerCase s = map lowerChar s"

fun startsWith :: "string \<Rightarrow> string \<Rightarrow> bool" where
  "startsWith s [] = True"
| "startsWith [] (p # ps) = False"
| "startsWith (c # cs) (p # ps) = (c = p \<and> startsWith cs ps)"

text \<open>\<open>s.includes(pat)\<close>\<close>

fun includes_str :: "string \<Rightarrow> string \<Rightarrow> bool" where
  "includes_str [] pat = (pat = [])"
| "includes_str (c # cs) pat = (startsWith (c # cs) pat \<or> includes_str cs pat)"

text \<open>\<open>s.split(c)\<close> for a one-character separator.\<close>

fun split :: "string \<Rightarrow> char \<Rightarrow> string list" where
  "split [] sep = [[]]"
| "split (c # cs) sep =
     (if c = sep then [] # split cs sep
      else (case split cs sep of
              [] \<Rightarrow> [[c]]
            | word # rest \<Rightarrow> (c # word) # rest))"

section \<open>The simple workflow\<close>

record simple_analysis_json =
  intent :: "string field"
  urgency :: "string field"
  complexity :: "string field"
  needsHuman :: "bool field"
  analysisConfidence :: "real field"

record simple_analysis =
  an_intent :: string
  an_urgency :: string
  an_complexity :: string
  an_needsHuman :: bool
  an_confidence :: jsnum

text \<open>\<open>x || d\<close> for a text property: the empty string is falsy.\<close>

fun orText :: "string field \<Rightarrow> string \<Rightarrow> string" where
  "orText (Present s) d = (if s = [] then d else s)"
| "orText Undefined d = d"
| "orText Null d = d"

text \<open>
  The simple workflow's collaborators: the reply of the generator is the model's text
  (\<open>None\<close> when the call throws); there is no persistence call.
\<close>

type_synonym simple_env = "(simple_analysis_json, string option) env"

definition defaultAnalysis :: simple_analysis where
  "defaultAnalysis =
     \<lparr>an_intent = ''general_inquiry'', an_urgency = ''medium'', an_complexity = ''moderate'',
      an_needsHuman = False, an_confidence = Num 0.5\<rparr>"

definition analyzeQuery_simple :: "simple_analysis_json llm_result \<Rightarrow> simple_analysis" where
  "analyzeQuery_simple reply =
     (case reply of
        Throws \<Rightarrow> defaultAnalysis
      | ParsedNull \<Rightarrow> defaultAnalysis
      | Parsed analysis \<Rightarrow>
          \<lparr>an_intent = orText (intent analysis) ''general_inquiry'',
           an_urgency = orText (urgency analysis) ''medium'',
           an_complexity = orText (complexity analysis) ''moderate'',
           an_needsHuman = truthyBool (needsHuman analysis),
           an_confidence = orDefault (analysisConfidence analysis) 0.8\<rparr>)"

definition mockContext :: "string list" where
  "mockContext =
     [''Company policy: We offer 24/7 customer support for all premium users.'',
      ''FAQ: Account issues can usually be resolved by clearing browser cache.'',
      ''Knowledge base: Password reset requires email verification.'',
      ''Support hours: Our human agents are available Monday-Friday 9AM-6PM EST.'',
      ''Escalation policy: Complex technical issues should be escalated to Level 2 support.'']"

definition errorContext :: "string list" where
  "errorContext =
     [''I apologize, but I'm having trouble accessing our knowledge base right now.'',
      ''For immediate assistance, please contact our support team.'',
      ''Our support hours are Monday-Friday 9AM-6PM EST.'']"

text \<open>The keyword match over the mock context, used when the search gave nothing.\<close>

definition mockFallback :: "string \<Rightarrow> string list" where
  "mockFallback query =
     (let keywords = split (toLowerCase query) CHR '' '';
          relevantContext =
            filter (\<lambda>context. list_ex (\<lambda>keyword. includes_str (toLowerCase context) keyword) keywords)
              mockContext
      in if length relevantContext > 0 then relevantContext else take 3 mockContext)"

text \<open>
  \<open>retrieveContext(userQuery, companyId?)\<close>: the search is called only for a truthy
  company identifier; a search that throws gives the error context.
\<close>

definition retrieveContext_simple ::
  "search_result \<Rightarrow> string \<Rightarrow> string option \<Rightarrow> string list \<times> source_doc list" where
  "retrieveContext_simple reply query company =
     (if company \<noteq> None \<and> company \<noteq> Some []
      then (case reply of
              SearchThrows \<Rightarrow> (errorContext, [])
            | SearchResult chunks srcs \<Rightarrow>
                if length chunks > 0 then (chunks, srcs) else (mockFallback query, []))
      else (mockFallback query, []))"

definition troubleProcessing :: string where
  "troubleProcessing =
     ''I'm sorry, I'm having trouble processing your request right now. Please try again or contact human support.''"

text \<open>The confidence that \<open>generateResponse\<close> assigns to the model's text.\<close>

definition responseConfidence :: "string \<Rightarrow> string list \<Rightarrow> source_doc list \<Rightarrow> real" where
  "responseConfidence aiResponse context srcs =
     (let c0 = 0.8;
          c1 = (if includes_str (toLowerCase aiResponse) ''not sure''
                   \<or> includes_str (toLowerCase aiResponse) ''don't know''
                then 0.6 else c0);
          c2 = (if length context = 0 \<or> list_ex (\<lambda>c. includes_str c ''trouble accessing'') context
                then 0.5 else c1)
      in if length srcs > 0 then min (c2 + 0.1) 0.95 else c2)"

definition generateResponse_simple ::
  "string option \<Rightarrow> string list \<Rightarrow> source_doc list \<Rightarrow> string \<times> real" where
  "generateResponse_simple reply context srcs =
     (case reply of
        None \<Rightarrow> (troubleProcessing, 0.3)
      | Some aiResponse \<Rightarrow> (aiResponse, responseConfidence aiResponse context srcs))"

definition staticSuggestions :: "AISuggestion list" where
  "staticSuggestions =
     [\<lparr>sid = ''suggestion_0'',
       stext = Present ''Review the user's account history for similar issues'',
       sconfidence = Present 0.7\<rparr>,
      \<lparr>sid = ''suggestion_1'',
       stext = Present ''Check the knowledge base for relevant documentation'',
       sconfidence = Present 0.8\<rparr>,
      \<lparr>sid = ''suggestion_2'',
       stext = Present ''Consider escalating to technical support if needed'',
       sconfidence = Present 0.8\<rparr>]"

definition generateSuggestions_simple ::
  "suggestions_json llm_result \<Rightarrow> real \<Rightarrow> AISuggestion list" where
  "generateSuggestions_simple reply conf =
     (if conf > 0.8 then []
      else try_catch (parseSuggestions reply) (\<lambda>_. staticSuggestions))"

definition simpleStatus :: "bool \<Rightarrow> real \<Rightarrow> ConversationStatus" where
  "simpleStatus humanNeeded conf =
     (let status = Green;
          status = (if humanNeeded \<or> conf < 0.7 then Yellow else status)
      in if conf < 0.5 then Red else status)"

definition errorResult :: WorkflowResult where
  "errorResult =
     \<lparr>res_response = Present
        ''I'm experiencing some technical difficulties. Please try again or contact human support.'',
      res_status = Red,
      res_confidence = Num 0.0,
      res_suggestions = [error_suggestion],
      res_sources = None\<rparr>"

text \<open>
  The \<open>try\<close> block of \<open>processUserMessage\<close>; the four steps catch what they throw.
\<close>

definition processUserMessage_try ::
  "simple_env \<Rightarrow> string \<Rightarrow> string option \<Rightarrow> unit + WorkflowResult" where
  "processUserMessage_try e userMessage company =
     (let analysis = analyzeQuery_simple (analysisReply e);
          (context, srcs) = retrieveContext_simple (searchReply e) userMessage company;
          (reply, conf) = generateResponse_simple (responseReply e) context srcs;
          status = simpleStatus (an_needsHuman analysis) conf;
          generated = generateSuggestions_simple (suggestionsReply e) conf
      in Inr \<lparr>res_response = Present reply,
              res_status = status,
              res_confidence = Num conf,
              res_suggestions = generated,
              res_sources = (if length srcs > 0 then Some srcs else None)\<rparr>)"

definition processUserMessage ::
  "simple_env \<Rightarrow> string \<Rightarrow> string option \<Rightarrow> WorkflowResult" where
  "processUserMessage e userMessage company =
     try_catch (processUserMessage_try e userMessage company) (\<lambda>_. errorResult)"

section \<open>The concurrent workflow\<close>

text \<open>
  \<open>ConcurrentWorkflowState\<close> has the fields of \<open>HandoffWorkflowState\<close>, and two more
  that no decision reads (\<open>processingTime\<close>, \<open>parallelResults\<close>); they are left out.
\<close>

type_synonym ConcurrentWorkflowState = HandoffWorkflowState

record concurrent_analysis_json =
  c_aiConfidence :: "real field"
  needsImmediateHuman :: "bool field"
  c_reasoning :: "string field"

type_synonym concurrent_env =
  "(concurrent_analysis_json, response_json llm_result) env"

text \<open>
  The analysis runnable returns what \<open>JSON.parse\<close> returns (\<open>None\<close> for \<open>null\<close>),
  or its default when the call or the parse throws.
\<close>

definition createAnalysisRunnable ::
  "concurrent_analysis_json llm_result \<Rightarrow> concurrent_analysis_json option" where
  "createAnalysisRunnable reply =
     (case reply of
        Throws \<Rightarrow>
          Some \<lparr>c_aiConfidence = Present 0.5,
                needsImmediateHuman = Present False,
                c_reasoning = Present ''Analysis failed - proceeding with defaults''\<rparr>
      | ParsedNull \<Rightarrow> None
      | Parsed analysis \<Rightarrow> Some analysis)"

definition createContextRetrievalRunnable ::
  "search_result \<Rightarrow> string list \<times> source_doc list \<times> bool" where
  "createContextRetrievalRunnable reply =
     (case reply of
        SearchResult chunks srcs \<Rightarrow>
          if length chunks > 0 then (chunks, srcs, True) else (fallbackContext, [], False)
      | SearchThrows \<Rightarrow>
          ([''Error accessing knowledge base - escalating to human support''], [], False))"

text \<open>
  The suggestions runnable: no call of the model when the confidence it is given is
  above 0.7.
\<close>

fun createSuggestionsRunnable ::
  "suggestions_json llm_result \<Rightarrow> jsnum \<Rightarrow> world \<Rightarrow> AISuggestion list \<times> world" where
  "createSuggestionsRunnable reply conf w =
     (if js_gt conf (Num 0.7) then ([], w)
      else (try_catch (parseSuggestions reply) (\<lambda>_. [fallback_suggestion]),
            called CallSuggester w))"

definition responseRunnable :: "response_json llm_result \<Rightarrow> response_json option" where
  "responseRunnable reply =
     (case reply of
        Throws \<Rightarrow>
          Some \<lparr>response = Present troubleConnecting,
                reportedConfidence = Present 0.3,
                suggestsHumanHelp = Present True\<rparr>
      | ParsedNull \<Rightarrow> None
      | Parsed aiResponse \<Rightarrow> Some aiResponse)"

text \<open>
  \<open>OptimizedQueries.updateConversationStatus\<close> throws when the update reports an
  error or rejects, so every failure of the update reaches the \<open>catch\<close>.
\<close>

fun handleConcurrentHandoff_try ::
  "('a, 'r) env \<Rightarrow> ConcurrentWorkflowState \<times> world
     \<Rightarrow> world + ConcurrentWorkflowState \<times> world" where
  "handleConcurrentHandoff_try e (state, w) =
     (case updateReply e of
        UpdateOk \<Rightarrow>
          (let w' = called CallPersistence
                      (w\<lparr>conversations :=
                           updateRow (conversationId state) (currentStatus state)
                             (conversations w)\<rparr>)
           in if currentStatus state = Red
              then Inr (state\<lparr>finalResponse :=
                                Present (toString (finalResponse state) @ handoffSentence)\<rparr>, w')
              else Inr (state, w'))
      | UpdateError \<Rightarrow> Inl (called CallPersistence w)
      | UpdateThrows \<Rightarrow> Inl (called CallPersistence w))"

fun handleConcurrentHandoff ::
  "('a, 'r) env \<Rightarrow> ConcurrentWorkflowState \<times> world \<Rightarrow> ConcurrentWorkflowState \<times> world" where
  "handleConcurrentHandoff e (state, w) =
     try_catch (handleConcurrentHandoff_try e (state, w)) (\<lambda>w'. (state, w'))"

text \<open>
  Step 3 of \<open>runConcurrentWorkflow\<close>: the status, and one fixed suggestion for a red
  turn that has none.
\<close>

definition concurrentStatus :: "ConcurrentWorkflowState \<Rightarrow> ConcurrentWorkflowState" where
  "concurrentStatus state =
     (if needsHumanIntervention state \<or> js_lt (confidence state) (Num 0.5)
      then state\<lparr>currentStatus := Red,
                 suggestions := (if length (suggestions state) = 0 then [escalate_immediately]
                                 else suggestions state)\<rparr>
      else if js_lt (confidence state) (Num 0.7)
      then state\<lparr>currentStatus := Yellow\<rparr>
      else state\<lparr>currentStatus := Green\<rparr>)"

text \<open>
  The \<open>try\<close> block of \<open>runConcurrentWorkflow\<close>. Reading a property of a \<open>null\<close>
  analysis or response throws, with the state as it is at that point.
\<close>

definition runConcurrentWorkflow_try ::
  "concurrent_env \<Rightarrow> ConcurrentWorkflowState \<times> world
     \<Rightarrow> ConcurrentWorkflowState \<times> world + ConcurrentWorkflowState \<times> world" where
  "runConcurrentWorkflow_try e start =
     (case start of
        (state0, w0) \<Rightarrow>
          (let w1 = called CallRetriever (called CallAnalyzer w0);
               (context, srcs, success) = createContextRetrievalRunnable (searchReply e)
           in case createAnalysisRunnable (analysisReply e) of
                None \<Rightarrow> Inl (state0, w1)
              | Some analysis \<Rightarrow>
                  (let state1 = state0\<lparr>confidence := orDefault (c_aiConfidence analysis) 0.8,
                                       needsHumanIntervention :=
                                         truthyBool (needsImmediateHuman analysis),
                                       retrievedContext := context,
                                       sources := srcs\<rparr>
                   in if needsHumanIntervention state1 \<and> js_lt (confidence state1) (Num 0.3)
                      then Inr (handleConcurrentHandoff e
                                  (state1\<lparr>currentStatus := Red,
                                          finalResponse := Present earlyEscalationMessage\<rparr>, w1))
                      else (case createSuggestionsRunnable (suggestionsReply e)
                                   (confidence state1) (called CallGenerator w1) of
                              (generated, w2) \<Rightarrow>
                                (case responseRunnable (responseReply e) of
                                   None \<Rightarrow> Inl (state1, w2)
                                 | Some aiResponse \<Rightarrow>
                                     (let state2 =
                                            state1\<lparr>finalResponse := response aiResponse,
                                                   confidence :=
                                                     js_min
                                                       (js_add
                                                          (js_mul (confidence state1) (Num 0.6))
                                                          (js_mul
                                                             (toNumber
                                                                (reportedConfidence aiResponse))
                                                             (Num 0.4)))
                                                       (Num 0.95),
                                                   needsHumanIntervention :=
                                                     (needsHumanIntervention state1
                                                      \<or> truthyBool (suggestsHumanHelp aiResponse)),
                                                   suggestions := generated\<rparr>;
                                          state3 = concurrentStatus state2
                                      in if currentStatus state3 = Red
                                         then Inr (handleConcurrentHandoff e (state3, w2))
                                         else Inr (state3, w2)))))))"

definition runConcurrentWorkflow ::
  "concurrent_env \<Rightarrow> string \<Rightarrow> string \<Rightarrow> string \<Rightarrow> message list \<Rightarrow> world
     \<Rightarrow> ConcurrentWorkflowState \<times> world" where
  "runConcurrentWorkflow e cid userMessage company previousMessages w =
     try_catch
       (runConcurrentWorkflow_try e (initialState cid userMessage company previousMessages, w))
       (\<lambda>(state, w'). (errorState state, w'))"

definition processUserMessageConcurrent ::
  "concurrent_env \<Rightarrow> string \<Rightarrow> string \<Rightarrow> string \<Rightarrow> message list \<Rightarrow> world
     \<Rightarrow> WorkflowResult \<times> world" where
  "processUserMessageConcurrent e cid userMessage company previousMessages w =
     (case runConcurrentWorkflow e cid userMessage company previousMessages w of
        (result, w') \<Rightarrow> (toResult result, w'))"

section \<open>Example turns\<close>

definition emptyWorld :: world where
  "emptyWorld = \<lparr>calls = [], conversations = Map.empty\<rparr>"

text \<open>A world in which conversation \<open>c1\<close> is stored as green.\<close>

definition greenWorld :: world where
  "greenWorld = \<lparr>calls = [], conversations = [''c1'' \<mapsto> Green]\<rparr>"

definition handbook :: source_doc where
  "handbook = \<lparr>documentId = ''d1'', fileName = ''handbook.pdf'', chunkCount = 1\<rparr>"

text \<open>
  \<open>handoffTurn ac flag search rc help sugg upd\<close>: the analyzer reports confidence
  \<open>ac\<close> and flag \<open>flag\<close>, the generator reports confidence \<open>rc\<close> and flag \<open>help\<close>.
\<close>

definition handoffTurn ::
  "real field \<Rightarrow> bool \<Rightarrow> search_result \<Rightarrow> real field \<Rightarrow> bool
     \<Rightarrow> suggestions_json llm_result \<Rightarrow> update_result \<Rightarrow> handoff_env" where
  "handoffTurn ac flag search rc help sugg upd =
     \<lparr>analysisReply = Parsed \<lparr>aiConfidence = ac, needsImmedateHuman = Present flag,
                               reasoning = Present ''because''\<rparr>,
      searchReply = search,
      responseReply = Parsed \<lparr>response = Present ''Here is what I found.'',
                               reportedConfidence = rc,
                               suggestsHumanHelp = Present help\<rparr>,
      suggestionsReply = sugg,
      updateReply = upd\<rparr>"

definition concurrentTurn ::
  "real field \<Rightarrow> bool \<Rightarrow> search_result \<Rightarrow> real field \<Rightarrow> bool
     \<Rightarrow> suggestions_json llm_result \<Rightarrow> update_result \<Rightarrow> concurrent_env" where
  "concurrentTurn ac flag search rc help sugg upd =
     \<lparr>analysisReply = Parsed \<lparr>c_aiConfidence = ac, needsImmediateHuman = Present flag,
                               c_reasoning = Present ''because''\<rparr>,
      searchReply = search,
      responseReply = Parsed \<lparr>response = Present ''Here is what I found.'',
                               reportedConfidence = rc,
                               suggestsHumanHelp = Present help\<rparr>,
      suggestionsReply = sugg,
      updateReply = upd\<rparr>"

definition found :: search_result where
  "found = SearchResult [''Refunds are issued within 5 business days.''] [handbook]"

definition oneSuggestion :: "suggestions_json llm_result" where
  "oneSuggestion =
     Parsed (Array [Some \<lparr>rawText = Present ''Offer a callback'', rawConfidence = Present 0.7\<rparr>])"

definition fourSuggestions :: "suggestions_json llm_result" where
  "fourSuggestions =
     Parsed (Array [Some \<lparr>rawText = Present ''Offer a callback'', rawConfidence = Present 0.7\<rparr>,
                    Some \<lparr>rawText = Present ''Check the account'', rawConfidence = Present 0.6\<rparr>,
                    Some \<lparr>rawText = Present ''Send the refund form'', rawConfidence = Present 0.6\<rparr>,
                    Some \<lparr>rawText = Present ''Escalate to billing'', rawConfidence = Present 0.5\<rparr>])"

text \<open>Every call of the language model throws; so does the search.\<close>

definition outage :: "('a, 'b llm_result) env" where
  "outage = \<lparr>analysisReply = Throws, searchReply = SearchThrows, responseReply = Throws,
             suggestionsReply = Throws, updateReply = UpdateOk\<rparr>"

definition simpleOutage :: simple_env where
  "simpleOutage = \<lparr>analysisReply = Throws, searchReply = SearchThrows, responseReply = None,
                   suggestionsReply = Throws, updateReply = UpdateOk\<rparr>"

text \<open>
  \<open>simpleTurn flag search text\<close>: a turn of the simple workflow; the analyzer sets its
  flag to \<open>flag\<close> and the generator answers \<open>text\<close>.
\<close>

definition simpleTurn :: "bool \<Rightarrow> search_result \<Rightarrow> string \<Rightarrow> simple_env" where
  "simpleTurn flag search reply =
     \<lparr>analysisReply = Parsed \<lparr>intent = Present ''billing'', urgency = Present ''high'',
                               complexity = Present ''simple'', needsHuman = Present flag,
                               analysisConfidence = Present 0.9\<rparr>,
      searchReply = search,
      responseReply = Some reply,
      suggestionsReply = oneSuggestion,
      updateReply = UpdateOk\<rparr>"

section \<open>Properties of the steps\<close>

declare analyzeQuery.simps [simp del] retrieveContext.simps [simp del]
  generateResponse.simps [simp del] generateSuggestions.simps [simp del]
  determineStatus.simps [simp del] handleHandoff.simps [simp del]
  handleHandoff_try.simps [simp del]

subsection \<open>Steps of the handoff workflow, field by field\<close>

lemma analyzeQuery_fields:
  "confidence (fst (analyzeQuery e sw)) =
     (case analysisReply e of Parsed a \<Rightarrow> orDefault (aiConfidence a) 0.8 | _ \<Rightarrow> Num 0.5)"
  "needsHumanIntervention (fst (analyzeQuery e sw)) =
     (case analysisReply e of Parsed a \<Rightarrow> truthyBool (needsImmedateHuman a) | _ \<Rightarrow> False)"
  "suggestions (fst (analyzeQuery e sw)) = suggestions (fst sw)"
  "sources (fst (analyzeQuery e sw)) = sources (fst sw)"
  "conversationId (fst (analyzeQuery e sw)) = conversationId (fst sw)"
  "snd (analyzeQuery e sw) = called CallAnalyzer (snd sw)"
  by (cases sw; simp add: analyzeQuery.simps analyzeQuery_try_def try_catch_def split: llm_result.splits)+

lemma retrieveContext_fields:
  "confidence (fst (retrieveContext e sw)) =
     (case searchReply e of
        SearchThrows \<Rightarrow> js_min (js_mul (confidence (fst sw)) (Num 0.7)) (Num 0.5)
      | SearchResult chunks srcs \<Rightarrow> confidence (fst sw))"
  "needsHumanIntervention (fst (retrieveContext e sw)) = needsHumanIntervention (fst sw)"
  "conversationId (fst (retrieveContext e sw)) = conversationId (fst sw)"
  "snd (retrieveContext e sw) = called CallRetriever (snd sw)"
  by (cases sw; simp add: retrieveContext.simps split: search_result.splits)+

lemma generateResponse_fields:
  "confidence (fst (generateResponse e sw)) =
     (case responseReply e of
        Parsed r \<Rightarrow> js_min (js_add (js_mul (confidence (fst sw)) (Num 0.6))
                                   (js_mul (toNumber (reportedConfidence r)) (Num 0.4)))
                           (Num 0.95)
      | _ \<Rightarrow> Num 0.3)"
  "needsHumanIntervention (fst (generateResponse e sw)) =
     (case responseReply e of
        Parsed r \<Rightarrow> needsHumanIntervention (fst sw) \<or> truthyBool (suggestsHumanHelp r)
      | _ \<Rightarrow> True)"
  "finalResponse (fst (generateResponse e sw)) =
     (case responseReply e of
        Parsed r \<Rightarrow> response r
      | _ \<Rightarrow> Present troubleConnecting)"
  "conversationId (fst (generateResponse e sw)) = conversationId (fst sw)"
  "snd (generateResponse e sw) = called CallGenerator (snd sw)"
  by (cases sw; simp add: generateResponse.simps generateResponse_try_def try_catch_def Let_def
      split: llm_result.splits)+

lemma determineStatus_fields:
  "confidence (fst (determineStatus e sw)) = confidence (fst sw)"
  "needsHumanIntervention (fst (determineStatus e sw)) = needsHumanIntervention (fst sw)"
  "finalResponse (fst (determineStatus e sw)) = finalResponse (fst sw)"
  "conversationId (fst (determineStatus e sw)) = conversationId (fst sw)"
  "currentStatus (fst (determineStatus e sw)) =
     (if needsHumanIntervention (fst sw) \<or> js_lt (confidence (fst sw)) (Num 0.5) then Red
      else if js_lt (confidence (fst sw)) (Num 0.7) then Yellow else Green)"
  "suggestions (fst (determineStatus e sw)) =
     (if needsHumanIntervention (fst sw) \<or> js_lt (confidence (fst sw)) (Num 0.5)
      then [escalate_immediately, review_context]
      else if js_lt (confidence (fst sw)) (Num 0.7)
      then try_catch (parseSuggestions (suggestionsReply e)) (\<lambda>_. [fallback_suggestion])
      else [])"
  "snd (determineStatus e sw) =
     (if \<not> (needsHumanIntervention (fst sw) \<or> js_lt (confidence (fst sw)) (Num 0.5))
         \<and> js_lt (confidence (fst sw)) (Num 0.7)
      then called CallSuggester (snd sw) else snd sw)"
  by (cases sw; simp add: determineStatus.simps generateSuggestions.simps)+

lemma handleHandoff_fields:
  "confidence (fst (handleHandoff e sw)) = confidence (fst sw)"
  "currentStatus (fst (handleHandoff e sw)) = currentStatus (fst sw)"
  "suggestions (fst (handleHandoff e sw)) = suggestions (fst sw)"
  "sources (fst (handleHandoff e sw)) = sources (fst sw)"
  "finalResponse (fst (handleHandoff e sw)) =
     (if updateReply e \<noteq> UpdateThrows \<and> currentStatus (fst sw) = Red
      then Present (toString (finalResponse (fst sw)) @ handoffSentence)
      else finalResponse (fst sw))"
  "calls (snd (handleHandoff e sw)) = calls (snd sw) @ [CallPersistence]"
  "conversations (snd (handleHandoff e sw)) =
     (if updateReply e = UpdateOk
      then updateRow (conversationId (fst sw)) (currentStatus (fst sw)) (conversations (snd sw))
      else conversations (snd sw))"
  by (cases sw; simp add: handleHandoff.simps handleHandoff_try.simps try_catch_def Let_def called_def
      split: update_result.splits)+

lemma runHandoffWorkflow_unfold:
  "runHandoffWorkflow e cid userMessage company previousMessages w =
     (let a = analyzeQuery e (initialState cid userMessage company previousMessages, w)
      in if needsHumanIntervention (fst a) \<and> js_lt (confidence (fst a)) (Num 0.3)
         then handleHandoff e
                ((fst a)\<lparr>currentStatus := Red,
                         finalResponse := Present earlyEscalationMessage\<rparr>, snd a)
         else (let d = determineStatus e (generateResponse e (retrieveContext e a))
               in if currentStatus (fst d) = Red then handleHandoff e (fst d, snd d) else d))"
  by (simp add: runHandoffWorkflow_def runHandoffWorkflow_try_def try_catch_def Let_def
      split: prod.splits)


lemmas handoff_fields = analyzeQuery_fields retrieveContext_fields generateResponse_fields
  determineStatus_fields handleHandoff_fields

lemma orDefault_falsy: "\<not> truthyNum x \<Longrightarrow> orDefault x d = Num d"
  by (simp add: orDefault_def)

lemma orDefault_nonzero: "d \<noteq> 0 \<Longrightarrow> orDefault x d \<noteq> Num 0"
  by (cases x) (auto simp: orDefault_def)

lemma toResult_fields [simp]:
  "res_status (toResult s) = currentStatus s"
  "res_confidence (toResult s) = confidence s"
  "res_suggestions (toResult s) = suggestions s"
  "res_response (toResult s) = finalResponse s"
  by (simp_all add: toResult_def)

lemma processUserMessageWithHandoff_fst:
  "fst (processUserMessageWithHandoff e cid userMessage company previousMessages w) =
     toResult (fst (runHandoffWorkflow e cid userMessage company previousMessages w))"
  by (simp add: processUserMessageWithHandoff_def split: prod.splits)

lemma processUserMessage_fields:
  "res_confidence (processUserMessage e userMessage company) =
     Num (snd (generateResponse_simple (responseReply e)
                 (fst (retrieveContext_simple (searchReply e) userMessage company))
                 (snd (retrieveContext_simple (searchReply e) userMessage company))))"
  "res_status (processUserMessage e userMessage company) =
     simpleStatus (an_needsHuman (analyzeQuery_simple (analysisReply e)))
       (snd (generateResponse_simple (responseReply e)
                 (fst (retrieveContext_simple (searchReply e) userMessage company))
                 (snd (retrieveContext_simple (searchReply e) userMessage company))))"
  by (simp_all add: processUserMessage_def processUserMessage_try_def try_catch_def Let_def
      split: prod.splits)


lemma orDefault_not_NaN: "orDefault x d \<noteq> NaN"
  by (cases x) (auto simp: orDefault_def)


lemma js_arith_NaN [simp]:
  "js_mul x y = NaN \<longleftrightarrow> x = NaN \<or> y = NaN"
  "js_add x y = NaN \<longleftrightarrow> x = NaN \<or> y = NaN"
  "js_min x y = NaN \<longleftrightarrow> x = NaN \<or> y = NaN"
  by (cases x; cases y; simp)+

subsection \<open>Steps of the concurrent workflow\<close>

declare handleConcurrentHandoff.simps [simp del] handleConcurrentHandoff_try.simps [simp del]

lemma processUserMessageWithHandoff_snd:
  "snd (processUserMessageWithHandoff e cid userMessage company previousMessages w) =
     snd (runHandoffWorkflow e cid userMessage company previousMessages w)"
  by (simp add: processUserMessageWithHandoff_def split: prod.splits)

lemma processUserMessageConcurrent_fst:
  "fst (processUserMessageConcurrent e cid userMessage company previousMessages w) =
     toResult (fst (runConcurrentWorkflow e cid userMessage company previousMessages w))"
  by (simp add: processUserMessageConcurrent_def split: prod.splits)

lemma processUserMessageConcurrent_snd:
  "snd (processUserMessageConcurrent e cid userMessage company previousMessages w) =
     snd (runConcurrentWorkflow e cid userMessage company previousMessages w)"
  by (simp add: processUserMessageConcurrent_def split: prod.splits)

lemma handleConcurrentHandoff_fields:
  "confidence (fst (handleConcurrentHandoff e sw)) = confidence (fst sw)"
  "currentStatus (fst (handleConcurrentHandoff e sw)) = currentStatus (fst sw)"
  "suggestions (fst (handleConcurrentHandoff e sw)) = suggestions (fst sw)"
  "sources (fst (handleConcurrentHandoff e sw)) = sources (fst sw)"
  "finalResponse (fst (handleConcurrentHandoff e sw)) =
     (if updateReply e = UpdateOk \<and> currentStatus (fst sw) = Red
      then Present (toString (finalResponse (fst sw)) @ handoffSentence)
      else finalResponse (fst sw))"
  "calls (snd (handleConcurrentHandoff e sw)) = calls (snd sw) @ [CallPersistence]"
  "conversations (snd (handleConcurrentHandoff e sw)) =
     (if updateReply e = UpdateOk
      then updateRow (conversationId (fst sw)) (currentStatus (fst sw)) (conversations (snd sw))
      else conversations (snd sw))"
  by (cases sw; simp add: handleConcurrentHandoff.simps handleConcurrentHandoff_try.simps
      try_catch_def Let_def called_def split: update_result.splits)+

lemma concurrentStatus_fields:
  "confidence (concurrentStatus state) = confidence state"
  "finalResponse (concurrentStatus state) = finalResponse state"
  "conversationId (concurrentStatus state) = conversationId state"
  "sources (concurrentStatus state) = sources state"
  "currentStatus (concurrentStatus state) =
     (if needsHumanIntervention state \<or> js_lt (confidence state) (Num 0.5) then Red
      else if js_lt (confidence state) (Num 0.7) then Yellow else Green)"
  "suggestions (concurrentStatus state) =
     (if (needsHumanIntervention state \<or> js_lt (confidence state) (Num 0.5))
         \<and> suggestions state = []
      then [escalate_immediately] else suggestions state)"
  by (simp_all add: concurrentStatus_def)

lemma errorState_fields:
  "confidence (errorState state) = Num 0"
  "currentStatus (errorState state) = Red"
  "suggestions (errorState state) = [error_suggestion]"
  "finalResponse (errorState state) = Present technicalDifficulties"
  "sources (errorState state) = sources state"
  by (simp_all add: errorState_def)


lemma runConcurrentWorkflow_unfold:
  "runConcurrentWorkflow e cid userMessage company previousMessages w =
     (let w1 = called CallRetriever (called CallAnalyzer w);
          state0 = initialState cid userMessage company previousMessages;
          found = createContextRetrievalRunnable (searchReply e)
      in case createAnalysisRunnable (analysisReply e) of
           None \<Rightarrow> (errorState state0, w1)
         | Some analysis \<Rightarrow>
             (let state1 = state0\<lparr>confidence := orDefault (c_aiConfidence analysis) 0.8,
                                  needsHumanIntervention :=
                                    truthyBool (needsImmediateHuman analysis),
                                  retrievedContext := fst found,
                                  sources := fst (snd found)\<rparr>
              in if truthyBool (needsImmediateHuman analysis)
                    \<and> js_lt (orDefault (c_aiConfidence analysis) 0.8) (Num 0.3)
                 then handleConcurrentHandoff e
                        (state1\<lparr>currentStatus := Red,
                                finalResponse := Present earlyEscalationMessage\<rparr>, w1)
                 else (let g = createSuggestionsRunnable (suggestionsReply e)
                                 (orDefault (c_aiConfidence analysis) 0.8)
                                 (called CallGenerator w1)
                       in case responseRunnable (responseReply e) of
                            None \<Rightarrow> (errorState state1, snd g)
                          | Some aiResponse \<Rightarrow>
                              (let state3 = concurrentStatus
                                     (state1\<lparr>finalResponse := response aiResponse,
                                             confidence :=
                                               js_min
                                                 (js_add
                                                    (js_mul (orDefault (c_aiConfidence analysis) 0.8)
                                                       (Num 0.6))
                                                    (js_mul
                                                       (toNumber (reportedConfidence aiResponse))
                                                       (Num 0.4)))
                                                 (Num 0.95),
                                             needsHumanIntervention :=
                                               (truthyBool (needsImmediateHuman analysis)
                                                \<or> truthyBool (suggestsHumanHelp aiResponse)),
                                             suggestions := fst g\<rparr>)
                               in if currentStatus state3 = Red
                                  then handleConcurrentHandoff e (state3, snd g)
                                  else (state3, snd g)))))"
  by (simp add: runConcurrentWorkflow_def runConcurrentWorkflow_try_def try_catch_def Let_def
      case_prod_beta del: createSuggestionsRunnable.simps split: option.splits)

lemmas concurrent_fields = handleConcurrentHandoff_fields concurrentStatus_fields
  errorState_fields

subsection \<open>The suggestion generator\<close>

lemma mapSuggestions_length:
  "mapSuggestions items n = Inr mapped \<Longrightarrow> length mapped = length items"
proof (induction items arbitrary: n mapped)
  case Nil
  then show ?case by simp
next
  case (Cons item items)
  then show ?case
    by (cases item) (auto split: sum.splits)
qed

lemma parseSuggestions_nonempty:
  assumes "reply \<noteq> Parsed (Array [])"
  shows "try_catch (parseSuggestions reply) (\<lambda>_. [fallback_suggestion]) \<noteq> []"
proof (cases "parseSuggestions reply")
  case (Inl u)
  then show ?thesis by (simp add: try_catch_def)
next
  case (Inr mapped)
  then obtain items where r: "reply = Parsed (Array items)" and m: "mapSuggestions items 0 = Inr mapped"
    by (auto simp: parseSuggestions_def split: llm_result.splits suggestions_json.splits)
  from r assms have "items \<noteq> []" by simp
  with mapSuggestions_length [OF m] have "mapped \<noteq> []" by auto
  with Inr show ?thesis by (simp add: try_catch_def)
qed

lemma mapSuggestions_Some:
  "mapSuggestions (map Some raws) n =
     Inr (map (\<lambda>(i, s). \<lparr>sid = ''suggestion_'' @ digits i, stext = rawText s,
                            sconfidence = rawConfidence s\<rparr>)
            (zip [n ..< n + length raws] raws))"
proof (induction raws arbitrary: n)
  case Nil
  then show ?case by simp
next
  case (Cons s raws)
  have "[n ..< n + length (s # raws)] = n # [Suc n ..< Suc n + length raws]"
    by (simp add: upt_rec)
  with Cons [of "Suc n"] show ?case by simp
qed

lemma mapSuggestions_null:
  "None \<in> set items \<Longrightarrow> mapSuggestions items n = Inl ()"
proof (induction items arbitrary: n)
  case Nil
  then show ?case by simp
next
  case (Cons item items)
  then show ?case by (cases item) (auto split: sum.splits)
qed

subsection \<open>The steps do not read the outcome of the status update\<close>

lemma steps_ignore_update:
  "analyzeQuery (e\<lparr>updateReply := u\<rparr>) sw = analyzeQuery e sw"
  "retrieveContext (e\<lparr>updateReply := u\<rparr>) sw = retrieveContext e sw"
  "generateResponse (e\<lparr>updateReply := u\<rparr>) sw = generateResponse e sw"
  "determineStatus (e\<lparr>updateReply := u\<rparr>) sw = determineStatus e sw"
  by (cases sw; simp add: analyzeQuery.simps retrieveContext.simps generateResponse.simps
      determineStatus.simps generateSuggestions.simps)+

lemma handleHandoff_reported_error:
  "updateReply e = UpdateError \<Longrightarrow>
   fst (handleHandoff e sw) = fst (handleHandoff (e\<lparr>updateReply := UpdateOk\<rparr>) sw)"
  by (cases sw) (simp add: handleHandoff.simps handleHandoff_try.simps try_catch_def Let_def)

subsection \<open>The confidence that the orchestrators return\<close>

lemma handoff_confidence:
  "confidence (fst (runHandoffWorkflow e cid userMessage company previousMessages w)) =
     (let a = analyzeQuery e (initialState cid userMessage company previousMessages, w)
      in if needsHumanIntervention (fst a) \<and> js_lt (confidence (fst a)) (Num 0.3)
         then confidence (fst a)
         else (case responseReply e of
                 Parsed r \<Rightarrow>
                   js_min (js_add (js_mul (confidence (fst (retrieveContext e a))) (Num 0.6))
                                  (js_mul (toNumber (reportedConfidence r)) (Num 0.4)))
                          (Num 0.95)
               | _ \<Rightarrow> Num 0.3))"
  by (simp add: runHandoffWorkflow_unfold handoff_fields Let_def)

lemma analyzeQuery_confidence_Num:
  "\<exists>c. confidence (fst (analyzeQuery e sw)) = Num c"
  using orDefault_not_NaN
  by (cases "confidence (fst (analyzeQuery e sw))")
     (auto simp: analyzeQuery_fields split: llm_result.splits)

lemma js_min_upper: "js_min x (Num b) = Num r \<Longrightarrow> r \<le> b"
  by (cases x) auto

lemma blend_lower:
  "0 \<le> a \<Longrightarrow> 0 \<le> b \<Longrightarrow>
   \<exists>r. js_min (js_add (js_mul (Num a) (Num 0.6)) (js_mul (Num b) (Num 0.4))) (Num 0.95) = Num r
       \<and> 0 \<le> r \<and> r \<le> 0.95"
  by (simp add: min_def)

subsection \<open>The contexts of the simple workflow\<close>

lemma mockContext_no_trouble:
  "\<not> list_ex (\<lambda>c. includes_str c ''trouble accessing'') mockContext"
  by (simp add: mockContext_def)

lemma mockFallback_no_trouble:
  "mockFallback query \<noteq> []
   \<and> \<not> list_ex (\<lambda>c. includes_str c ''trouble accessing'') (mockFallback query)"
proof -
  have sub: "set (mockFallback query) \<subseteq> set mockContext"
    by (auto simp: mockFallback_def Let_def dest: in_set_takeD)
  have "mockFallback query \<noteq> []"
    by (auto simp: mockFallback_def Let_def mockContext_def)
  moreover have "\<not> list_ex (\<lambda>c. includes_str c ''trouble accessing'') (mockFallback query)"
    using sub mockContext_no_trouble by (auto simp: list_ex_iff)
  ultimately show ?thesis by simp
qed

lemma errorContext_trouble:
  "list_ex (\<lambda>c. includes_str c ''trouble accessing'') errorContext"
  by (simp add: errorContext_def)

lemma responseConfidence_mock:
  "responseConfidence answer (mockFallback query) [] =
     (if includes_str (toLowerCase answer) ''not sure''
         \<or> includes_str (toLowerCase answer) ''don't know''
      then 0.6 else 0.8)"
  using mockFallback_no_trouble [of query] by (simp add: responseConfidence_def Let_def)

lemma mockFallback_hi: "mockFallback ''hi'' = take 3 mockContext"
  by code_simp

lemma retrieveContext_simple_mock:
  "retrieveContext_simple (SearchResult [] srcs) query tenant = (mockFallback query, [])"
  "retrieveContext_simple reply query None = (mockFallback query, [])"
  by (simp_all add: retrieveContext_simple_def)

lemmas concurrent_eval = runConcurrentWorkflow_unfold concurrent_fields Let_def
  concurrentTurn_def processUserMessageConcurrent_fst processUserMessageConcurrent_snd
  orDefault_def createAnalysisRunnable_def responseRunnable_def
  createContextRetrievalRunnable_def found_def

lemmas handoff_eval = runHandoffWorkflow_unfold handoff_fields Let_def handoffTurn_def
  processUserMessageWithHandoff_fst processUserMessageWithHandoff_snd orDefault_def found_def

section \<open>Severity against confidence and the human-needed flags\<close>




section \<open>Suggestions against severity\<close>

text \<open>
  C2, as the code has it. In the handoff workflow a green result has no suggestions; a
  yellow result has the suggestion generator's list, which is non-empty unless the model
  answered with an empty array; a red result of a turn that reached the response generator
  has suggestions (the two fixed ones, or the one of the orchestrator's catch). In the
  concurrent workflow a red result of a turn that reached the response generator has
  suggestions as well. The early-escalation path is not covered by this statement.
\<close>

theorem suggestions_against_severity:
  "(let result = fst (processUserMessageWithHandoff e cid userMessage company previousMessages
                        \<lparr>calls = [], conversations = table\<rparr>);
        made = calls (snd (processUserMessageWithHandoff e cid userMessage company
                             previousMessages \<lparr>calls = [], conversations = table\<rparr>))
    in (res_status result = Green \<longrightarrow> res_suggestions result = [])
     \<and> (res_status result = Yellow \<and> suggestionsReply e \<noteq> Parsed (Array [])
          \<longrightarrow> res_suggestions result \<noteq> [])
     \<and> (res_status result = Red \<and> CallGenerator \<in> set made
          \<longrightarrow> res_suggestions result \<noteq> []))
 \<and> (let result = fst (processUserMessageConcurrent ce cid userMessage company previousMessages
                        \<lparr>calls = [], conversations = table\<rparr>);
        made = calls (snd (processUserMessageConcurrent ce cid userMessage company
                             previousMessages \<lparr>calls = [], conversations = table\<rparr>))
    in res_status result = Red \<and> CallGenerator \<in> set made
          \<longrightarrow> res_suggestions result \<noteq> [])"
proof -
  let ?w = "\<lparr>calls = [], conversations = table\<rparr>"
  let ?r = "runHandoffWorkflow e cid userMessage company previousMessages ?w"
  let ?c = "runConcurrentWorkflow ce cid userMessage company previousMessages ?w"
  have green: "currentStatus (fst ?r) = Green \<longrightarrow> suggestions (fst ?r) = []"
    by (simp add: runHandoffWorkflow_unfold handoff_fields Let_def)
  have yellow: "currentStatus (fst ?r) = Yellow \<and> suggestionsReply e \<noteq> Parsed (Array [])
      \<longrightarrow> suggestions (fst ?r) \<noteq> []"
    by (simp add: runHandoffWorkflow_unfold handoff_fields Let_def parseSuggestions_nonempty)
  have red: "currentStatus (fst ?r) = Red \<and> CallGenerator \<in> set (calls (snd ?r))
      \<longrightarrow> suggestions (fst ?r) \<noteq> []"
    by (simp add: runHandoffWorkflow_unfold handoff_fields Let_def called_def)
  have cred: "currentStatus (fst ?c) = Red \<and> CallGenerator \<in> set (calls (snd ?c))
      \<longrightarrow> suggestions (fst ?c) \<noteq> []"
    by (simp add: runConcurrentWorkflow_unfold concurrent_fields Let_def called_def
        split: option.splits)
  show ?thesis
    unfolding Let_def processUserMessageWithHandoff_fst processUserMessageWithHandoff_snd
      processUserMessageConcurrent_fst processUserMessageConcurrent_snd toResult_fields
    using green yellow red cred by (intro conjI)
qed

text \<open>
  Instances: a green turn, a yellow turn for which the model suggests one reply, a red
  turn with blended confidence 0.4, and a red turn of the concurrent workflow.
\<close>

theorem suggestions_against_severity_witness:
  "res_status (fst (processUserMessageWithHandoff
       (handoffTurn (Present 0.9) False found (Present 0.9) False oneSuggestion UpdateOk)
       ''c1'' ''hi'' ''acme'' [] \<lparr>calls = [], conversations = Map.empty\<rparr>)) = Green
   \<and> res_suggestions (fst (processUserMessageWithHandoff
       (handoffTurn (Present 0.9) False found (Present 0.9) False oneSuggestion UpdateOk)
       ''c1'' ''hi'' ''acme'' [] \<lparr>calls = [], conversations = Map.empty\<rparr>)) = []
   \<and> res_status (fst (processUserMessageWithHandoff
       (handoffTurn (Present 0.6) False found (Present 0.6) False oneSuggestion UpdateOk)
       ''c1'' ''hi'' ''acme'' [] \<lparr>calls = [], conversations = Map.empty\<rparr>)) = Yellow
   \<and> oneSuggestion \<noteq> Parsed (Array [])
   \<and> res_suggestions (fst (processUserMessageWithHandoff
       (handoffTurn (Present 0.6) False found (Present 0.6) False oneSuggestion UpdateOk)
       ''c1'' ''hi'' ''acme'' [] \<lparr>calls = [], conversations = Map.empty\<rparr>)) \<noteq> []
   \<and> res_status (fst (processUserMessageWithHandoff
       (handoffTurn (Present 0.4) False found (Present 0.4) False oneSuggestion UpdateOk)
       ''c1'' ''hi'' ''acme'' [] \<lparr>calls = [], conversations = Map.empty\<rparr>)) = Red
   \<and> CallGenerator \<in> set (calls (snd (processUserMessageWithHandoff
       (handoffTurn (Present 0.4) False found (Present 0.4) False oneSuggestion UpdateOk)
       ''c1'' ''hi'' ''acme'' [] \<lparr>calls = [], conversations = Map.empty\<rparr>)))
   \<and> res_suggestions (fst (processUserMessageWithHandoff
       (handoffTurn (Present 0.4) False found (Present 0.4) False oneSuggestion UpdateOk)
       ''c1'' ''hi'' ''acme'' [] \<lparr>calls = [], conversations = Map.empty\<rparr>)) \<noteq> []
   \<and> res_status (fst (processUserMessageConcurrent
       (concurrentTurn (Present 0.8) False found (Present 0.9) True oneSuggestion UpdateOk)
       ''c1'' ''hi'' ''acme'' [] \<lparr>calls = [], conversations = Map.empty\<rparr>)) = Red
   \<and> CallGenerator \<in> set (calls (snd (processUserMessageConcurrent
       (concurrentTurn (Present 0.8) False found (Present 0.9) True oneSuggestion UpdateOk)
       ''c1'' ''hi'' ''acme'' [] \<lparr>calls = [], conversations = Map.empty\<rparr>)))
   \<and> res_suggestions (fst (processUserMessageConcurrent
       (concurrentTurn (Present 0.8) False found (Present 0.9) True oneSuggestion UpdateOk)
       ''c1'' ''hi'' ''acme'' [] \<lparr>calls = [], conversations = Map.empty\<rparr>)) \<noteq> []"
  using suggestions_against_severity
    [of "handoffTurn (Present 0.9) False found (Present 0.9) False oneSuggestion UpdateOk"
        "''c1''" "''hi''" "''acme''" "[]" Map.empty
        "concurrentTurn (Present 0.8) False found (Present 0.9) True oneSuggestion UpdateOk"]
    suggestions_against_severity
    [of "handoffTurn (Present 0.6) False found (Present 0.6) False oneSuggestion UpdateOk"
        "''c1''" "''hi''" "''acme''" "[]" Map.empty
        "concurrentTurn (Present 0.8) False found (Present 0.9) True oneSuggestion UpdateOk"]
    suggestions_against_severity
    [of "handoffTurn (Present 0.4) False found (Present 0.4) False oneSuggestion UpdateOk"
        "''c1''" "''hi''" "''acme''" "[]" Map.empty
        "concurrentTurn (Present 0.8) False found (Present 0.9) True oneSuggestion UpdateOk"]
  by (simp add: handoff_eval concurrent_eval processUserMessageWithHandoff_snd called_def
      oneSuggestion_def js_gt_def)

text \<open>
  C2 as stated fails for a yellow turn: when the model answers the suggestion
  prompt with an empty array, the yellow result has no suggestions.
\<close>

theorem yellow_turn_without_suggestions:
  "res_status (fst (processUserMessageWithHandoff
       (handoffTurn (Present 0.6) False found (Present 0.6) False (Parsed (Array [])) UpdateOk)
       ''c1'' ''hi'' ''acme'' [] greenWorld)) = Yellow
   \<and> res_suggestions (fst (processUserMessageWithHandoff
       (handoffTurn (Present 0.6) False found (Present 0.6) False (Parsed (Array [])) UpdateOk)
       ''c1'' ''hi'' ''acme'' [] greenWorld)) = []"
  by (simp add: handoff_eval parseSuggestions_def try_catch_def)

text \<open>
  The early-escalation path returns red with the suggestions of the initial state, which
  are none, in both orchestrators.
\<close>

lemma early_escalation_without_suggestions:
  "res_status (fst (processUserMessageWithHandoff
       (handoffTurn (Present 0.1) True found (Present 0.9) False oneSuggestion UpdateOk)
       ''c1'' ''hi'' ''acme'' [] greenWorld)) = Red
   \<and> res_suggestions (fst (processUserMessageWithHandoff
       (handoffTurn (Present 0.1) True found (Present 0.9) False oneSuggestion UpdateOk)
       ''c1'' ''hi'' ''acme'' [] greenWorld)) = []
   \<and> res_status (fst (processUserMessageConcurrent
       (concurrentTurn (Present 0.1) True found (Present 0.9) False oneSuggestion UpdateOk)
       ''c1'' ''hi'' ''acme'' [] greenWorld)) = Red
   \<and> res_suggestions (fst (processUserMessageConcurrent
       (concurrentTurn (Present 0.1) True found (Present 0.9) False oneSuggestion UpdateOk)
       ''c1'' ''hi'' ''acme'' [] greenWorld)) = []"
  by (simp add: handoff_eval concurrent_eval initialState_def)

section \<open>The range of the confidence\<close>

text \<open>
  C3, as the code has it. The only clamp is \<open>Math.min(..., 0.95)\<close>. A confidence
  returned by the handoff workflow that is a number is at most 0.95. When the confidences
  that the model reports are not negative and the generator's reply carries one (or
  \<open>null\<close>), the returned confidence is a number between 0 and 0.95. The simple workflow
  computes its confidence itself and returns a number between 0.3 and 0.9.
\<close>

theorem confidence_clamped_above_only:
  "(let c = res_confidence (fst (processUserMessageWithHandoff e cid userMessage company
                                   previousMessages w))
    in (\<forall>r. c = Num r \<longrightarrow> r \<le> 0.95)
     \<and> ((case analysisReply e of
            Parsed a \<Rightarrow> (case aiConfidence a of Present x \<Rightarrow> 0 \<le> x | _ \<Rightarrow> True)
          | _ \<Rightarrow> True)
        \<and> (case responseReply e of
              Parsed r \<Rightarrow> (case reportedConfidence r of
                              Present y \<Rightarrow> 0 \<le> y | Null \<Rightarrow> True | Undefined \<Rightarrow> False)
            | _ \<Rightarrow> True)
        \<longrightarrow> (\<exists>r. c = Num r \<and> 0 \<le> r \<and> r \<le> 0.95)))
 \<and> (\<exists>r. res_confidence (processUserMessage se message tenant) = Num r
          \<and> 0.3 \<le> r \<and> r \<le> 0.9)"
proof -
  let ?s = "fst (runHandoffWorkflow e cid userMessage company previousMessages w)"
  let ?a = "confidence (fst (analyzeQuery e
              (initialState cid userMessage company previousMessages, w)))"
  let ?good = "(case analysisReply e of
            Parsed a \<Rightarrow> (case aiConfidence a of Present x \<Rightarrow> 0 \<le> x | _ \<Rightarrow> True)
          | _ \<Rightarrow> True)
        \<and> (case responseReply e of
              Parsed r \<Rightarrow> (case reportedConfidence r of
                              Present y \<Rightarrow> 0 \<le> y | Null \<Rightarrow> True | Undefined \<Rightarrow> False)
            | _ \<Rightarrow> True)"
  obtain ca where ca: "?a = Num ca"
    using analyzeQuery_confidence_Num by blast
  have ca0: "0 \<le> ca" if "?good"
    using that ca
    by (auto simp: analyzeQuery_fields orDefault_def split: llm_result.splits field.splits if_splits)
  obtain cr where cr: "confidence (fst (retrieveContext e (analyzeQuery e
        (initialState cid userMessage company previousMessages, w)))) = Num cr"
      and cr0: "0 \<le> ca \<longrightarrow> 0 \<le> cr"
    using ca by (cases "searchReply e") (simp_all add: retrieveContext_fields)
  have upper: "confidence ?s = Num r \<longrightarrow> r \<le> 0.95" for r
  proof (cases "responseReply e")
    case (Parsed x)
    then show ?thesis
      using ca js_min_upper [of _ "0.95" r]
      by (auto simp: handoff_confidence Let_def simp del: js_min.simps)
  qed (use ca in \<open>auto simp: handoff_confidence Let_def\<close>)
  have lower: "confidence ?s \<noteq> NaN \<and> (\<forall>r. confidence ?s = Num r \<longrightarrow> 0 \<le> r)" if g: "?good"
  proof (cases "responseReply e")
    case (Parsed x)
    with g obtain y where y: "toNumber (reportedConfidence x) = Num y" and y0: "0 \<le> y"
      by (cases "reportedConfidence x") auto
    from cr0 ca0 [OF g] have "0 \<le> cr" by simp
    from blend_lower [OF this y0] show ?thesis
      using ca ca0 [OF g] Parsed y cr
      by (auto simp: handoff_confidence Let_def simp del: js_min.simps js_add.simps js_mul.simps)
  qed (use ca ca0 [OF g] in \<open>auto simp: handoff_confidence Let_def\<close>)
  have both: "?good \<longrightarrow> (\<exists>r. confidence ?s = Num r \<and> 0 \<le> r \<and> r \<le> 0.95)"
  proof
    assume g: ?good
    from lower [OF g] obtain r where r: "confidence ?s = Num r" and "0 \<le> r"
      by (cases "confidence ?s") auto
    moreover from upper r have "r \<le> 0.95" by blast
    ultimately show "\<exists>r. confidence ?s = Num r \<and> 0 \<le> r \<and> r \<le> 0.95" by blast
  qed
  have simple: "\<exists>r. res_confidence (processUserMessage se message tenant) = Num r
          \<and> 0.3 \<le> r \<and> r \<le> 0.9"
    by (simp add: processUserMessage_fields generateResponse_simple_def responseConfidence_def
        Let_def split: option.splits)
  show ?thesis
    unfolding Let_def processUserMessageWithHandoff_fst toResult_fields
    using upper both simple by blast
qed

text \<open>
  Instance: the analyzer and the generator both report 0.6; the result carries 0.6.
\<close>

theorem confidence_clamped_above_only_witness:
  "(case analysisReply
           (handoffTurn (Present 0.6) False found (Present 0.6) False oneSuggestion UpdateOk) of
      Parsed a \<Rightarrow> (case aiConfidence a of Present x \<Rightarrow> 0 \<le> x | _ \<Rightarrow> True)
    | _ \<Rightarrow> True)
   \<and> (case responseReply
             (handoffTurn (Present 0.6) False found (Present 0.6) False oneSuggestion UpdateOk) of
        Parsed r \<Rightarrow> (case reportedConfidence r of
                        Present y \<Rightarrow> 0 \<le> y | Null \<Rightarrow> True | Undefined \<Rightarrow> False)
      | _ \<Rightarrow> True)
   \<and> res_confidence (fst (processUserMessageWithHandoff
        (handoffTurn (Present 0.6) False found (Present 0.6) False oneSuggestion UpdateOk)
        ''c1'' ''hi'' ''acme'' [] greenWorld)) = Num 0.6
   \<and> (\<exists>r. res_confidence (fst (processUserMessageWithHandoff
        (handoffTurn (Present 0.6) False found (Present 0.6) False oneSuggestion UpdateOk)
        ''c1'' ''hi'' ''acme'' [] greenWorld)) = Num r \<and> 0 \<le> r \<and> r \<le> 0.95)"
  using confidence_clamped_above_only
    [of "handoffTurn (Present 0.6) False found (Present 0.6) False oneSuggestion UpdateOk"
        "''c1''" "''hi''" "''acme''" "[]" greenWorld simpleOutage "''hi''" None]
  by (simp add: handoff_eval)

text \<open>
  C3 as stated fails: the analyzer reports \<open>-1\<close> (truthy, so it is kept) and the
  generator 0.5; the blend is \<open>-0.4\<close>, \<open>Math.min\<close> leaves it, and it is returned.
\<close>

theorem negative_confidence_returned:
  "res_confidence (fst (processUserMessageWithHandoff
       (handoffTurn (Present (- 1)) False found (Present 0.5) False oneSuggestion UpdateOk)
       ''c1'' ''hi'' ''acme'' [] greenWorld)) = Num (- 0.4)
   \<and> js_lt (res_confidence (fst (processUserMessageWithHandoff
       (handoffTurn (Present (- 1)) False found (Present 0.5) False oneSuggestion UpdateOk)
       ''c1'' ''hi'' ''acme'' [] greenWorld))) (Num 0)"
  by (simp add: handoff_eval)

section \<open>A total outage of the language model\<close>

text \<open>
  C4, as the code has it. When every call of the language model throws, each step falls
  back on its own: no exception reaches the caller and the result is red. In the handoff
  workflow its confidence is 0.3, its response is the generator's fallback message (with
  the handoff sentence appended unless the status update rejects) and its suggestions are
  the two fixed ones of the red branch. The concurrent workflow returns confidence 0.42
  with the one fallback suggestion of the suggestion generator, and the simple workflow
  confidence 0.3 with its three static suggestions. The result with confidence 0.0 and the
  single suggestion of confidence 1.0 is what the orchestrator's own \<open>catch\<close> builds; the
  \<open>try\<close> block of the handoff orchestrator never throws, so it is not reached there.
\<close>

theorem outage_falls_back_stage_by_stage:
  "(let result = fst (processUserMessageWithHandoff
                        (e\<lparr>analysisReply := Throws, responseReply := Throws,
                           suggestionsReply := Throws\<rparr>)
                        cid userMessage company previousMessages w)
    in res_status result = Red
     \<and> res_confidence result = Num 0.3
     \<and> res_suggestions result = [escalate_immediately, review_context]
     \<and> res_response result =
         (if updateReply e = UpdateThrows then Present troubleConnecting
          else Present (troubleConnecting @ handoffSentence)))
 \<and> (\<exists>done. runHandoffWorkflow_try e' start = Inr done)
 \<and> (let result = fst (processUserMessageConcurrent
                        (ce\<lparr>analysisReply := Throws, responseReply := Throws,
                            suggestionsReply := Throws\<rparr>)
                        cid userMessage company previousMessages w)
    in res_status result = Red
     \<and> res_confidence result = Num 0.42
     \<and> res_suggestions result = [fallback_suggestion])
 \<and> (let result = processUserMessage
                        (se\<lparr>analysisReply := Throws, responseReply := None,
                            suggestionsReply := Throws\<rparr>)
                        userMessage tenant
    in res_status result = Red
     \<and> res_confidence result = Num 0.3
     \<and> res_suggestions result = staticSuggestions)"
proof -
  have handoff: "(let result = fst (processUserMessageWithHandoff
                        (e\<lparr>analysisReply := Throws, responseReply := Throws,
                           suggestionsReply := Throws\<rparr>)
                        cid userMessage company previousMessages w)
    in res_status result = Red
     \<and> res_confidence result = Num 0.3
     \<and> res_suggestions result = [escalate_immediately, review_context]
     \<and> res_response result =
         (if updateReply e = UpdateThrows then Present troubleConnecting
          else Present (troubleConnecting @ handoffSentence)))"
    by (simp add: processUserMessageWithHandoff_fst runHandoffWorkflow_unfold handoff_fields
        Let_def)
  have total: "\<exists>done. runHandoffWorkflow_try e' start = Inr done"
    by (simp add: runHandoffWorkflow_try_def split: prod.splits)
  have concurrent: "(let result = fst (processUserMessageConcurrent
                        (ce\<lparr>analysisReply := Throws, responseReply := Throws,
                            suggestionsReply := Throws\<rparr>)
                        cid userMessage company previousMessages w)
    in res_status result = Red
     \<and> res_confidence result = Num 0.42
     \<and> res_suggestions result = [fallback_suggestion])"
    by (simp add: processUserMessageConcurrent_fst runConcurrentWorkflow_unfold
        concurrent_fields Let_def createAnalysisRunnable_def responseRunnable_def
        orDefault_def js_gt_def parseSuggestions_def try_catch_def)
  have simple: "(let result = processUserMessage
                        (se\<lparr>analysisReply := Throws, responseReply := None,
                            suggestionsReply := Throws\<rparr>)
                        userMessage tenant
    in res_status result = Red
     \<and> res_confidence result = Num 0.3
     \<and> res_suggestions result = staticSuggestions)"
    by (simp add: processUserMessage_def processUserMessage_try_def try_catch_def Let_def
        generateResponse_simple_def simpleStatus_def generateSuggestions_simple_def
        parseSuggestions_def split: prod.splits)
  show ?thesis
    using handoff total concurrent simple by (intro conjI)
qed

text \<open>Instance: the outage, with a status update that completes.\<close>

theorem outage_falls_back_stage_by_stage_witness:
  "res_status (fst (processUserMessageWithHandoff
       (outage\<lparr>analysisReply := Throws, responseReply := Throws, suggestionsReply := Throws\<rparr>)
       ''c1'' ''hi'' ''acme'' [] greenWorld)) = Red
   \<and> res_confidence (fst (processUserMessageWithHandoff
       (outage\<lparr>analysisReply := Throws, responseReply := Throws, suggestionsReply := Throws\<rparr>)
       ''c1'' ''hi'' ''acme'' [] greenWorld)) = Num 0.3
   \<and> res_response (fst (processUserMessageWithHandoff
       (outage\<lparr>analysisReply := Throws, responseReply := Throws, suggestionsReply := Throws\<rparr>)
       ''c1'' ''hi'' ''acme'' [] greenWorld)) = Present (troubleConnecting @ handoffSentence)
   \<and> res_confidence (fst (processUserMessageConcurrent
       (outage\<lparr>analysisReply := Throws, responseReply := Throws, suggestionsReply := Throws\<rparr>)
       ''c1'' ''hi'' ''acme'' [] greenWorld)) = Num 0.42
   \<and> res_suggestions (processUserMessage
       (simpleOutage\<lparr>analysisReply := Throws, responseReply := None,
                      suggestionsReply := Throws\<rparr>) ''hi'' None) = staticSuggestions"
  using outage_falls_back_stage_by_stage
    [of outage "''c1''" "''hi''" "''acme''" "[]" greenWorld outage
        "(initialState ''c1'' ''hi'' ''acme'' [], greenWorld)" outage simpleOutage None]
  by (simp add: Let_def outage_def)

text \<open>
  C4 as stated fails: during a total outage the handoff workflow returns
  confidence 0.3 and two suggestions, of confidence 0.95 and 0.8.
\<close>

theorem outage_result_is_not_the_catch_all:
  "res_status (fst (processUserMessageWithHandoff outage ''c1'' ''hi'' ''acme'' [] greenWorld))
     = Red
   \<and> res_confidence (fst (processUserMessageWithHandoff outage ''c1'' ''hi'' ''acme'' []
        greenWorld)) = Num 0.3
   \<and> map sconfidence (res_suggestions (fst (processUserMessageWithHandoff outage ''c1'' ''hi''
        ''acme'' [] greenWorld))) = [Present 0.95, Present 0.8]"
  by (simp add: processUserMessageWithHandoff_fst runHandoffWorkflow_unfold handoff_fields
      Let_def outage_def escalate_immediately_def review_context_def)

section \<open>The early escalation\<close>

text \<open>
  C5, as the code has it. When the parsed analysis sets the human-needed flag and reports
  a confidence below 0.3 other than 0 (a reported 0 is replaced by 0.8), the orchestrator
  returns red with the fixed escalation message and calls neither the response generator
  nor the suggestion generator. The handoff workflow has then called the analyzer and the
  persistence layer only; the concurrent workflow has also called the retriever, which it
  runs in parallel with the analyzer before the test. The handoff sentence is appended to
  the message when the handoff step reaches its end.
\<close>

theorem early_escalation_skips_generation:
  assumes "truthyBool flag" and "c < 0.3" and "c \<noteq> 0"
    and "analysisReply e = Parsed \<lparr>aiConfidence = Present c, needsImmedateHuman = flag,
                                    reasoning = why\<rparr>"
    and "analysisReply ce = Parsed \<lparr>c_aiConfidence = Present c, needsImmediateHuman = flag,
                                     c_reasoning = why\<rparr>"
  shows "(let run = runHandoffWorkflow e cid userMessage company previousMessages
                      \<lparr>calls = [], conversations = table\<rparr>
          in currentStatus (fst run) = Red
           \<and> confidence (fst run) = Num c
           \<and> calls (snd run) = [CallAnalyzer, CallPersistence]
           \<and> finalResponse (fst run) =
               (if updateReply e = UpdateThrows then Present earlyEscalationMessage
                else Present (earlyEscalationMessage @ handoffSentence)))
       \<and> (let run = runConcurrentWorkflow ce cid userMessage company previousMessages
                        \<lparr>calls = [], conversations = table\<rparr>
            in currentStatus (fst run) = Red
             \<and> confidence (fst run) = Num c
             \<and> calls (snd run) = [CallAnalyzer, CallRetriever, CallPersistence]
             \<and> finalResponse (fst run) =
                 (if updateReply ce = UpdateOk
                  then Present (earlyEscalationMessage @ handoffSentence)
                  else Present earlyEscalationMessage))"
proof -
  have handoff: "(let run = runHandoffWorkflow e cid userMessage company previousMessages
                      \<lparr>calls = [], conversations = table\<rparr>
          in currentStatus (fst run) = Red
           \<and> confidence (fst run) = Num c
           \<and> calls (snd run) = [CallAnalyzer, CallPersistence]
           \<and> finalResponse (fst run) =
               (if updateReply e = UpdateThrows then Present earlyEscalationMessage
                else Present (earlyEscalationMessage @ handoffSentence)))"
    using assms(1-4)
    by (simp add: runHandoffWorkflow_unfold handoff_fields Let_def orDefault_def called_def)
  have concurrent: "(let run = runConcurrentWorkflow ce cid userMessage company previousMessages
                        \<lparr>calls = [], conversations = table\<rparr>
            in currentStatus (fst run) = Red
             \<and> confidence (fst run) = Num c
             \<and> calls (snd run) = [CallAnalyzer, CallRetriever, CallPersistence]
             \<and> finalResponse (fst run) =
                 (if updateReply ce = UpdateOk
                  then Present (earlyEscalationMessage @ handoffSentence)
                  else Present earlyEscalationMessage))"
    using assms(1-3,5)
    by (simp add: runConcurrentWorkflow_unfold concurrent_fields Let_def orDefault_def
        called_def createAnalysisRunnable_def)
  show ?thesis using handoff concurrent by (rule conjI)
qed

text \<open>Instance: the flag is set and the reported confidence is 0.1.\<close>

theorem early_escalation_skips_generation_witness:
  "truthyBool (Present True) \<and> (0.1 :: real) < 0.3 \<and> (0.1 :: real) \<noteq> 0
   \<and> currentStatus (fst (runHandoffWorkflow
        (handoffTurn (Present 0.1) True found (Present 0.9) False oneSuggestion UpdateOk)
        ''c1'' ''help'' ''acme'' [] \<lparr>calls = [], conversations = [''c1'' \<mapsto> Green]\<rparr>)) = Red
   \<and> calls (snd (runHandoffWorkflow
        (handoffTurn (Present 0.1) True found (Present 0.9) False oneSuggestion UpdateOk)
        ''c1'' ''help'' ''acme'' [] \<lparr>calls = [], conversations = [''c1'' \<mapsto> Green]\<rparr>))
       = [CallAnalyzer, CallPersistence]
   \<and> finalResponse (fst (runHandoffWorkflow
        (handoffTurn (Present 0.1) True found (Present 0.9) False oneSuggestion UpdateOk)
        ''c1'' ''help'' ''acme'' [] \<lparr>calls = [], conversations = [''c1'' \<mapsto> Green]\<rparr>))
       = Present (earlyEscalationMessage @ handoffSentence)
   \<and> calls (snd (runConcurrentWorkflow
        (concurrentTurn (Present 0.1) True found (Present 0.9) False oneSuggestion UpdateOk)
        ''c1'' ''help'' ''acme'' [] \<lparr>calls = [], conversations = [''c1'' \<mapsto> Green]\<rparr>))
       = [CallAnalyzer, CallRetriever, CallPersistence]"
  using early_escalation_skips_generation
    [of "Present True" "0.1"
        "handoffTurn (Present 0.1) True found (Present 0.9) False oneSuggestion UpdateOk"
        "Present ''because''"
        "concurrentTurn (Present 0.1) True found (Present 0.9) False oneSuggestion UpdateOk"
        "''c1''" "''help''" "''acme''" "[]" "[''c1'' \<mapsto> Green]"]
  by (simp add: handoffTurn_def concurrentTurn_def Let_def)

text \<open>
  C5 as stated fails twice. In the concurrent workflow the retriever has been
  called when the short-circuit is taken. And a flagged analysis that reports a confidence
  of exactly 0 is not short-circuited at all: the handoff workflow goes on to call the
  retriever and the generator.
\<close>

theorem early_escalation_counterexample:
  "CallRetriever \<in> set (calls (snd (runConcurrentWorkflow
        (concurrentTurn (Present 0.1) True found (Present 0.9) False oneSuggestion UpdateOk)
        ''c1'' ''help'' ''acme'' [] greenWorld)))
   \<and> calls (snd (runHandoffWorkflow
        (handoffTurn (Present 0) True found (Present 0.9) False oneSuggestion UpdateOk)
        ''c1'' ''help'' ''acme'' [] greenWorld))
       = [CallAnalyzer, CallRetriever, CallGenerator, CallPersistence]"
  by (simp add: handoff_eval concurrent_eval called_def greenWorld_def)

section \<open>The combined confidence\<close>




section \<open>The confidence of the simple workflow's generator\<close>

text \<open>
  C7, as the code has it. \<open>generateResponse\<close> of the simple workflow receives the
  model's answer as plain text, with no self-reported confidence. It starts from the
  constant 0.8; sets 0.6 when the lower-cased answer contains \<open>not sure\<close> or
  \<open>don't know\<close>; sets 0.5 when the context is empty or one of its passages contains
  \<open>trouble accessing\<close>; then, when there are sources, adds 0.1 (never above 0.95).
  The mock context that retrieval substitutes when the tenant has no passages is never
  empty and contains no such passage, so it does not lower the confidence: the answer
  keeps 0.8, or 0.6 when hedged. The context that retrieval returns when the search throws
  does contain it, and gives 0.5. When the model's call throws the confidence is 0.3.
\<close>

theorem response_confidence_policy:
  "(let found = retrieveContext_simple reply query tenant;
        conf = snd (generateResponse_simple (Some answer) (fst found) (snd found));
        base = (if includes_str (toLowerCase answer) ''not sure''
                   \<or> includes_str (toLowerCase answer) ''don't know''
                then 0.6 else 0.8)
    in (tenant = None \<or> tenant = Some [] \<or> reply = SearchResult [] srcs
          \<longrightarrow> found = (mockFallback query, []) \<and> conf = base)
     \<and> (tenant \<noteq> None \<and> tenant \<noteq> Some [] \<and> reply = SearchThrows
          \<longrightarrow> found = (errorContext, []) \<and> conf = 0.5)
     \<and> (tenant \<noteq> None \<and> tenant \<noteq> Some [] \<and> reply = SearchResult chunks srcs
         \<and> chunks \<noteq> []
          \<longrightarrow> found = (chunks, srcs)
            \<and> conf = (let capped = (if list_ex (\<lambda>c. includes_str c ''trouble accessing'') chunks
                                     then 0.5 else base)
                      in if srcs \<noteq> [] then min (capped + 0.1) 0.95 else capped)))
 \<and> generateResponse_simple None passages docs = (troubleProcessing, 0.3)"
proof -
  let ?found = "retrieveContext_simple reply query tenant"
  let ?conf = "snd (generateResponse_simple (Some answer) (fst ?found) (snd ?found))"
  let ?base = "(if includes_str (toLowerCase answer) ''not sure''
                   \<or> includes_str (toLowerCase answer) ''don't know''
                then 0.6 else 0.8) :: real"
  have mock: "tenant = None \<or> tenant = Some [] \<or> reply = SearchResult [] srcs
      \<longrightarrow> ?found = (mockFallback query, []) \<and> ?conf = ?base"
    using mockFallback_no_trouble [of query]
    by (auto simp: retrieveContext_simple_def generateResponse_simple_def
        responseConfidence_def Let_def split: search_result.splits)
  have threw: "tenant \<noteq> None \<and> tenant \<noteq> Some [] \<and> reply = SearchThrows
      \<longrightarrow> ?found = (errorContext, []) \<and> ?conf = 0.5"
    using errorContext_trouble
    by (auto simp: retrieveContext_simple_def generateResponse_simple_def
        responseConfidence_def Let_def)
  have real: "tenant \<noteq> None \<and> tenant \<noteq> Some [] \<and> reply = SearchResult chunks srcs
         \<and> chunks \<noteq> []
      \<longrightarrow> ?found = (chunks, srcs)
        \<and> ?conf = (let capped = (if list_ex (\<lambda>c. includes_str c ''trouble accessing'') chunks
                                 then 0.5 else ?base)
                  in if srcs \<noteq> [] then min (capped + 0.1) 0.95 else capped)"
    by (auto simp: retrieveContext_simple_def generateResponse_simple_def
        responseConfidence_def Let_def)
  have failed: "generateResponse_simple None passages docs = (troubleProcessing, 0.3)"
    by (simp add: generateResponse_simple_def)
  show ?thesis
    unfolding Let_def using mock threw real [unfolded Let_def] failed by (intro conjI)
qed

text \<open>
  Instances: a hedged answer over the mock context (0.6), an answer after a search that
  threw (0.5), and an answer grounded in a real passage with its source (0.9).
\<close>

theorem response_confidence_policy_witness:
  "retrieveContext_simple (SearchResult [] []) ''hi'' None = (mockFallback ''hi'', [])
   \<and> snd (generateResponse_simple (Some ''I am not sure about that.'')
        (fst (retrieveContext_simple (SearchResult [] []) ''hi'' None))
        (snd (retrieveContext_simple (SearchResult [] []) ''hi'' None))) = 0.6
   \<and> retrieveContext_simple SearchThrows ''hi'' (Some ''acme'') = (errorContext, [])
   \<and> snd (generateResponse_simple (Some ''Refunds take 5 days.'')
        (fst (retrieveContext_simple SearchThrows ''hi'' (Some ''acme'')))
        (snd (retrieveContext_simple SearchThrows ''hi'' (Some ''acme'')))) = 0.5
   \<and> snd (generateResponse_simple (Some ''Refunds take 5 days.'')
        (fst (retrieveContext_simple
                (SearchResult [''Refunds are issued within 5 business days.''] [handbook])
                ''hi'' (Some ''acme'')))
        (snd (retrieveContext_simple
                (SearchResult [''Refunds are issued within 5 business days.''] [handbook])
                ''hi'' (Some ''acme'')))) = 0.9"
proof -
  have hedged: "includes_str (toLowerCase ''I am not sure about that.'') ''not sure''"
    by (simp add: toLowerCase_def lowerChar_def)
  have plain: "\<not> includes_str (toLowerCase ''Refunds take 5 days.'') ''not sure''"
    "\<not> includes_str (toLowerCase ''Refunds take 5 days.'') ''don't know''"
    "\<not> includes_str ''Refunds are issued within 5 business days.'' ''trouble accessing''"
    by (simp_all add: toLowerCase_def lowerChar_def)
  have mock: "retrieveContext_simple (SearchResult [] []) ''hi'' None = (mockFallback ''hi'', [])
      \<and> snd (generateResponse_simple (Some ''I am not sure about that.'')
            (fst (retrieveContext_simple (SearchResult [] []) ''hi'' None))
            (snd (retrieveContext_simple (SearchResult [] []) ''hi'' None))) = 0.6"
    using response_confidence_policy
      [where reply = "SearchResult [] []" and query = "''hi''" and tenant = None
         and answer = "''I am not sure about that.''" and srcs = "[]" and chunks = "[]"
         and passages = "[]" and docs = "[]"]
    apply (simp add: Let_def hedged)
    apply (elim conjE)
    apply simp
    done
  have threw: "retrieveContext_simple SearchThrows ''hi'' (Some ''acme'') = (errorContext, [])
      \<and> snd (generateResponse_simple (Some ''Refunds take 5 days.'')
            (fst (retrieveContext_simple SearchThrows ''hi'' (Some ''acme'')))
            (snd (retrieveContext_simple SearchThrows ''hi'' (Some ''acme'')))) = 0.5"
    using response_confidence_policy
      [where reply = SearchThrows and query = "''hi''" and tenant = "Some ''acme''"
         and answer = "''Refunds take 5 days.''" and srcs = "[]" and chunks = "[]"
         and passages = "[]" and docs = "[]"]
    apply (simp add: Let_def)
    apply (elim conjE)
    apply simp
    done
  have grounded: "snd (generateResponse_simple (Some ''Refunds take 5 days.'')
        (fst (retrieveContext_simple
                (SearchResult [''Refunds are issued within 5 business days.''] [handbook])
                ''hi'' (Some ''acme'')))
        (snd (retrieveContext_simple
                (SearchResult [''Refunds are issued within 5 business days.''] [handbook])
                ''hi'' (Some ''acme'')))) = 0.9"
    using response_confidence_policy
      [where reply = "SearchResult [''Refunds are issued within 5 business days.''] [handbook]"
         and query = "''hi''" and tenant = "Some ''acme''"
         and answer = "''Refunds take 5 days.''"
         and chunks = "[''Refunds are issued within 5 business days.'']"
         and srcs = "[handbook]" and passages = "[]" and docs = "[]"]
    apply (simp add: Let_def plain)
    apply (elim conjE)
    apply simp
    done
  show ?thesis using mock threw grounded by blast
qed

text \<open>
  C7 as stated fails: for a tenant without passages the retrieval falls back to
  the mock context, and a plain answer keeps confidence 0.8; nothing caps it at 0.5.
\<close>

theorem fallback_context_not_capped:
  "retrieveContext_simple (SearchResult [] []) ''hi'' (Some ''acme'')
     = (take 3 mockContext, [])
   \<and> res_sources (processUserMessage
        (simpleTurn False (SearchResult [] []) ''Our agents are available Monday to Friday.'')
        ''hi'' (Some ''acme'')) = None
   \<and> res_confidence (processUserMessage
        (simpleTurn False (SearchResult [] []) ''Our agents are available Monday to Friday.'')
        ''hi'' (Some ''acme'')) = Num 0.8"
proof -
  have plain:
    "\<not> includes_str (toLowerCase ''Our agents are available Monday to Friday.'') ''not sure''"
    "\<not> includes_str (toLowerCase ''Our agents are available Monday to Friday.'') ''don't know''"
    by (simp_all add: toLowerCase_def lowerChar_def)
  show ?thesis
    by (simp add: processUserMessage_def processUserMessage_try_def try_catch_def Let_def
        simpleTurn_def retrieveContext_simple_mock generateResponse_simple_def
        responseConfidence_mock plain mockFallback_hi [symmetric])
qed

section \<open>The suggestion generator\<close>

text \<open>
  C8, as the code has it. The suggestions runnable of the concurrent workflow returns no
  suggestion, without calling the model, when the confidence it is given is above 0.7.
  Otherwise it returns one suggestion for each element of the array that the model
  returns, in order and numbered from 0, whatever the length of that array: the prompt
  asks for two or three, and nothing bounds the count. When the call or the parse fails,
  when the parsed value is not an array, or when an element is \<open>null\<close>, it returns the one
  static suggestion about reviewing the conversation context, of confidence 0.8. The
  simple workflow's generator skips above 0.8 instead and falls back to three static
  suggestions.
\<close>

theorem suggestions_runnable_contract:
  "(js_gt conf (Num 0.7) \<longrightarrow> createSuggestionsRunnable reply conf w = ([], w))
 \<and> (\<not> js_gt conf (Num 0.7) \<and> reply = Parsed (Array (map Some raws)) \<longrightarrow>
       fst (createSuggestionsRunnable reply conf w) =
         map (\<lambda>(i, s). \<lparr>sid = ''suggestion_'' @ digits i, stext = rawText s,
                           sconfidence = rawConfidence s\<rparr>)
           (zip [0 ..< length raws] raws)
       \<and> length (fst (createSuggestionsRunnable reply conf w)) = length raws)
 \<and> (\<not> js_gt conf (Num 0.7)
      \<and> (reply = Throws \<or> reply = ParsedNull \<or> reply = Parsed NotArray
          \<or> (reply = Parsed (Array items) \<and> None \<in> set items)) \<longrightarrow>
       fst (createSuggestionsRunnable reply conf w) = [fallback_suggestion])
 \<and> sconfidence fallback_suggestion = Present 0.8
 \<and> (c > 0.8 \<longrightarrow> generateSuggestions_simple reply c = [])
 \<and> (\<not> c > 0.8 \<and> (reply = Throws \<or> reply = ParsedNull \<or> reply = Parsed NotArray) \<longrightarrow>
       generateSuggestions_simple reply c = staticSuggestions)
 \<and> length staticSuggestions = 3"
proof -
  have skip: "js_gt conf (Num 0.7) \<longrightarrow> createSuggestionsRunnable reply conf w = ([], w)"
    by simp
  have mapped: "\<not> js_gt conf (Num 0.7) \<and> reply = Parsed (Array (map Some raws)) \<longrightarrow>
       fst (createSuggestionsRunnable reply conf w) =
         map (\<lambda>(i, s). \<lparr>sid = ''suggestion_'' @ digits i, stext = rawText s,
                           sconfidence = rawConfidence s\<rparr>)
           (zip [0 ..< length raws] raws)
       \<and> length (fst (createSuggestionsRunnable reply conf w)) = length raws"
    by (simp add: parseSuggestions_def try_catch_def mapSuggestions_Some)
  have failed: "\<not> js_gt conf (Num 0.7)
      \<and> (reply = Throws \<or> reply = ParsedNull \<or> reply = Parsed NotArray
          \<or> (reply = Parsed (Array items) \<and> None \<in> set items)) \<longrightarrow>
       fst (createSuggestionsRunnable reply conf w) = [fallback_suggestion]"
    by (auto simp: parseSuggestions_def try_catch_def mapSuggestions_null)
  have simple: "(c > 0.8 \<longrightarrow> generateSuggestions_simple reply c = [])
     \<and> (\<not> c > 0.8 \<and> (reply = Throws \<or> reply = ParsedNull \<or> reply = Parsed NotArray) \<longrightarrow>
       generateSuggestions_simple reply c = staticSuggestions)
     \<and> length staticSuggestions = 3"
    by (auto simp: generateSuggestions_simple_def parseSuggestions_def try_catch_def
        staticSuggestions_def)
  have conf: "sconfidence fallback_suggestion = Present 0.8"
    by (simp add: fallback_suggestion_def)
  show ?thesis using skip mapped failed conf simple by (intro conjI) blast+
qed

text \<open>
  Instances: confidence 0.9 (nothing is generated), confidence 0.5 with a model that
  returns one suggestion, and confidence 0.5 with a model whose call throws.
\<close>

theorem suggestions_runnable_contract_witness:
  "js_gt (Num 0.9) (Num 0.7)
   \<and> createSuggestionsRunnable oneSuggestion (Num 0.9) emptyWorld = ([], emptyWorld)
   \<and> \<not> js_gt (Num 0.5) (Num 0.7)
   \<and> fst (createSuggestionsRunnable oneSuggestion (Num 0.5) emptyWorld) =
       [\<lparr>sid = ''suggestion_0'', stext = Present ''Offer a callback'',
         sconfidence = Present 0.7\<rparr>]
   \<and> fst (createSuggestionsRunnable Throws (Num 0.5) emptyWorld) = [fallback_suggestion]
   \<and> generateSuggestions_simple Throws 0.5 = staticSuggestions"
proof -
  have skip: "js_gt (Num 0.9) (Num 0.7)
      \<and> createSuggestionsRunnable oneSuggestion (Num 0.9) emptyWorld = ([], emptyWorld)"
    using suggestions_runnable_contract
      [where conf = "Num 0.9" and reply = oneSuggestion and w = emptyWorld and raws = "[]"
         and items = "[]" and c = "0.9"]
    by (simp add: js_gt_def)
  have one: "\<not> js_gt (Num 0.5) (Num 0.7)
      \<and> fst (createSuggestionsRunnable oneSuggestion (Num 0.5) emptyWorld) =
       [\<lparr>sid = ''suggestion_0'', stext = Present ''Offer a callback'',
         sconfidence = Present 0.7\<rparr>]"
    using suggestions_runnable_contract
      [where conf = "Num 0.5" and reply = oneSuggestion and w = emptyWorld
         and raws = "[\<lparr>rawText = Present ''Offer a callback'', rawConfidence = Present 0.7\<rparr>]"
         and items = "[]" and c = "0.5"]
    by (simp add: js_gt_def oneSuggestion_def digits.simps)
  have failed: "fst (createSuggestionsRunnable Throws (Num 0.5) emptyWorld)
        = [fallback_suggestion]
      \<and> generateSuggestions_simple Throws 0.5 = staticSuggestions"
    using suggestions_runnable_contract
      [where conf = "Num 0.5" and reply = Throws and w = emptyWorld and raws = "[]"
         and items = "[]" and c = "0.5"]
    by (simp add: js_gt_def)
  show ?thesis using skip one failed by blast
qed

text \<open>
  C8 as stated fails: at confidence 0.5 a model that returns four suggestions gets
  all four back.
\<close>

theorem four_suggestions_returned:
  "\<not> js_gt (Num 0.5) (Num 0.7)
   \<and> length (fst (createSuggestionsRunnable fourSuggestions (Num 0.5) emptyWorld)) = 4"
  by (simp add: js_gt_def fourSuggestions_def parseSuggestions_def try_catch_def)

section \<open>The \<open>|| 0.8\<close> default of the analyzer\<close>

text \<open>
  C9. In the query-analysis step a parsed \<open>aiConfidence\<close> that is falsy (exactly 0,
  \<open>null\<close> or absent) is replaced by 0.8. So the confidence that a parsed analysis
  leaves in the state is never 0, and a turn whose parsed confidence is 0 is never
  short-circuited: it goes on to the response generator, whatever the human-needed flag.
  The simple workflow's analyzer defaults its \<open>confidence\<close> in the same way.
\<close>

theorem falsy_analysis_confidence_defaulted:
  assumes "analysisReply e = Parsed a"
  shows "confidence (fst (analyzeQuery e sw)) \<noteq> Num 0
       \<and> an_confidence (analyzeQuery_simple (Parsed b)) \<noteq> Num 0
       \<and> (\<not> truthyNum (analysisConfidence b)
            \<longrightarrow> an_confidence (analyzeQuery_simple (Parsed b)) = Num 0.8)
       \<and> (\<not> truthyNum (aiConfidence a)
            \<longrightarrow> confidence (fst (analyzeQuery e sw)) = Num 0.8
              \<and> \<not> js_lt (confidence (fst (analyzeQuery e sw))) (Num 0.3)
              \<and> CallGenerator \<in> set (calls (snd
                   (runHandoffWorkflow e cid userMessage company previousMessages w))))"
proof -
  have "confidence (fst (analyzeQuery e sw)) \<noteq> Num 0"
    using assms by (simp add: analyzeQuery_fields orDefault_nonzero)
  moreover have "an_confidence (analyzeQuery_simple (Parsed b)) \<noteq> Num 0"
    by (simp add: analyzeQuery_simple_def orDefault_nonzero)
  moreover have "\<not> truthyNum (analysisConfidence b)
      \<longrightarrow> an_confidence (analyzeQuery_simple (Parsed b)) = Num 0.8"
    by (simp add: analyzeQuery_simple_def orDefault_falsy)
  moreover have "\<not> truthyNum (aiConfidence a)
      \<longrightarrow> confidence (fst (analyzeQuery e sw)) = Num 0.8
        \<and> \<not> js_lt (confidence (fst (analyzeQuery e sw))) (Num 0.3)
        \<and> CallGenerator \<in> set (calls (snd
             (runHandoffWorkflow e cid userMessage company previousMessages w)))"
    using assms
    by (simp add: runHandoffWorkflow_unfold handoff_fields Let_def orDefault_falsy called_def)
  ultimately show ?thesis by blast
qed

theorem falsy_analysis_confidence_defaulted_witness:
  "analysisReply (handoffTurn (Present 0) True found (Present 0.9) False oneSuggestion UpdateOk)
     = Parsed \<lparr>aiConfidence = Present 0, needsImmedateHuman = Present True,
               reasoning = Present ''because''\<rparr>
   \<and> \<not> truthyNum (Present 0)
   \<and> confidence (fst (analyzeQuery
        (handoffTurn (Present 0) True found (Present 0.9) False oneSuggestion UpdateOk)
        (initialState ''c1'' ''help'' ''acme'' [], greenWorld))) = Num 0.8
   \<and> CallGenerator \<in> set (calls (snd
        (runHandoffWorkflow
           (handoffTurn (Present 0) True found (Present 0.9) False oneSuggestion UpdateOk)
           ''c1'' ''help'' ''acme'' [] greenWorld)))
   \<and> an_confidence (analyzeQuery_simple
        (Parsed \<lparr>intent = Undefined, urgency = Undefined, complexity = Undefined,
                 needsHuman = Present True, analysisConfidence = Present 0\<rparr>)) = Num 0.8"
  using falsy_analysis_confidence_defaulted
    [of "handoffTurn (Present 0) True found (Present 0.9) False oneSuggestion UpdateOk"
        "\<lparr>aiConfidence = Present 0, needsImmedateHuman = Present True,
          reasoning = Present ''because''\<rparr>"
        "(initialState ''c1'' ''help'' ''acme'' [], greenWorld)"
        "\<lparr>intent = Undefined, urgency = Undefined, complexity = Undefined,
          needsHuman = Present True, analysisConfidence = Present 0\<rparr>"
        "''c1''" "''help''" "''acme''" "[]" greenWorld]
  by (simp add: handoffTurn_def)

section \<open>A failed status update\<close>

text \<open>
  C10, as the code has it. When the status update fails during handoff, the handoff step
  swallows the failure: the stored status column is left as it was, and the workflow
  returns the status, confidence and suggestions that it returns when the update
  succeeds, so a red result can stand beside a stored status that is not red. The handoff
  sentence is appended only when the step runs to its end. In the handoff workflow that
  is the case when the update reports its error in the value it returns (the whole state
  is then the one of a successful update), and not when the update call rejects; in the
  concurrent workflow the update helper throws on every failure, so the sentence is never
  appended after a failed update.
\<close>

theorem failed_update_is_swallowed:
  assumes "updateReply e \<noteq> UpdateOk" and "updateReply ce \<noteq> UpdateOk"
  shows "(let w = \<lparr>calls = [], conversations = table\<rparr>;
              failed = runHandoffWorkflow e cid userMessage company previousMessages w;
              updated = runHandoffWorkflow (e\<lparr>updateReply := UpdateOk\<rparr>) cid userMessage
                          company previousMessages w
          in conversations (snd failed) = table
           \<and> currentStatus (fst failed) = currentStatus (fst updated)
           \<and> confidence (fst failed) = confidence (fst updated)
           \<and> suggestions (fst failed) = suggestions (fst updated)
           \<and> (updateReply e = UpdateError \<longrightarrow> fst failed = fst updated)
           \<and> (updateReply e = UpdateThrows \<and> currentStatus (fst failed) = Red \<longrightarrow>
                finalResponse (fst updated)
                  = Present (toString (finalResponse (fst failed)) @ handoffSentence)))
       \<and> (let w = \<lparr>calls = [], conversations = table\<rparr>;
                failed = runConcurrentWorkflow ce cid userMessage company previousMessages w;
                updated = runConcurrentWorkflow (ce\<lparr>updateReply := UpdateOk\<rparr>) cid
                            userMessage company previousMessages w
            in conversations (snd failed) = table
             \<and> currentStatus (fst failed) = currentStatus (fst updated)
             \<and> confidence (fst failed) = confidence (fst updated)
             \<and> suggestions (fst failed) = suggestions (fst updated)
             \<and> (currentStatus (fst failed) = Red
                 \<and> CallPersistence \<in> set (calls (snd failed)) \<longrightarrow>
                  finalResponse (fst updated)
                    = Present (toString (finalResponse (fst failed)) @ handoffSentence)))"
proof -
  let ?w = "\<lparr>calls = [], conversations = table\<rparr>"
  let ?f = "runHandoffWorkflow e cid userMessage company previousMessages ?w"
  let ?u = "runHandoffWorkflow (e\<lparr>updateReply := UpdateOk\<rparr>) cid userMessage
              company previousMessages ?w"
  let ?a = "analyzeQuery e (initialState cid userMessage company previousMessages, ?w)"
  let ?d = "determineStatus e (generateResponse e (retrieveContext e ?a))"
  let ?early = "needsHumanIntervention (fst ?a) \<and> js_lt (confidence (fst ?a)) (Num 0.3)"
  let ?x = "((fst ?a)\<lparr>currentStatus := Red,
                         finalResponse := Present earlyEscalationMessage\<rparr>, snd ?a)"
  have stored: "conversations (snd ?f) = table"
    using assms(1)
    by (simp add: runHandoffWorkflow_unfold handoff_fields Let_def called_def)
  have same: "currentStatus (fst ?f) = currentStatus (fst ?u)
      \<and> confidence (fst ?f) = confidence (fst ?u)
      \<and> suggestions (fst ?f) = suggestions (fst ?u)"
    by (simp add: runHandoffWorkflow_unfold handoff_fields Let_def steps_ignore_update)
  have f: "?f = (if ?early then handleHandoff e ?x
       else if currentStatus (fst ?d) = Red then handleHandoff e (fst ?d, snd ?d) else ?d)"
    by (simp only: runHandoffWorkflow_unfold Let_def)
  have u: "?u = (if ?early then handleHandoff (e\<lparr>updateReply := UpdateOk\<rparr>) ?x
       else if currentStatus (fst ?d) = Red
            then handleHandoff (e\<lparr>updateReply := UpdateOk\<rparr>) (fst ?d, snd ?d) else ?d)"
    by (simp only: runHandoffWorkflow_unfold Let_def steps_ignore_update)
  have reported: "updateReply e = UpdateError \<longrightarrow> fst ?f = fst ?u"
  proof
    assume err: "updateReply e = UpdateError"
    show "fst ?f = fst ?u"
      unfolding f u
      using handleHandoff_reported_error [OF err, of ?x]
        handleHandoff_reported_error [OF err, of "(fst ?d, snd ?d)"]
      by (simp only: if_distrib [of fst] split: if_splits)
  qed
  have rejected: "updateReply e = UpdateThrows \<and> currentStatus (fst ?f) = Red \<longrightarrow>
      finalResponse (fst ?u) = Present (toString (finalResponse (fst ?f)) @ handoffSentence)"
    by (simp add: runHandoffWorkflow_unfold handoff_fields Let_def steps_ignore_update)
  have handoff: "conversations (snd ?f) = table
           \<and> currentStatus (fst ?f) = currentStatus (fst ?u)
           \<and> confidence (fst ?f) = confidence (fst ?u)
           \<and> suggestions (fst ?f) = suggestions (fst ?u)
           \<and> (updateReply e = UpdateError \<longrightarrow> fst ?f = fst ?u)
           \<and> (updateReply e = UpdateThrows \<and> currentStatus (fst ?f) = Red \<longrightarrow>
                finalResponse (fst ?u)
                  = Present (toString (finalResponse (fst ?f)) @ handoffSentence))"
    using stored same reported rejected by blast
  let ?cf = "runConcurrentWorkflow ce cid userMessage company previousMessages ?w"
  let ?cu = "runConcurrentWorkflow (ce\<lparr>updateReply := UpdateOk\<rparr>) cid
               userMessage company previousMessages ?w"
  have cstored: "conversations (snd ?cf) = table"
    using assms(2)
    by (simp add: runConcurrentWorkflow_unfold concurrent_fields Let_def called_def
        split: option.splits)
  have csame: "currentStatus (fst ?cf) = currentStatus (fst ?cu)
      \<and> confidence (fst ?cf) = confidence (fst ?cu)
      \<and> suggestions (fst ?cf) = suggestions (fst ?cu)"
    by (simp add: runConcurrentWorkflow_unfold concurrent_fields Let_def
        split: option.splits)
  have csentence: "currentStatus (fst ?cf) = Red \<and> CallPersistence \<in> set (calls (snd ?cf)) \<longrightarrow>
      finalResponse (fst ?cu) = Present (toString (finalResponse (fst ?cf)) @ handoffSentence)"
    using assms(2)
    by (simp add: runConcurrentWorkflow_unfold concurrent_fields Let_def called_def
        split: option.splits)
  have concurrent: "conversations (snd ?cf) = table
             \<and> currentStatus (fst ?cf) = currentStatus (fst ?cu)
             \<and> confidence (fst ?cf) = confidence (fst ?cu)
             \<and> suggestions (fst ?cf) = suggestions (fst ?cu)
             \<and> (currentStatus (fst ?cf) = Red \<and> CallPersistence \<in> set (calls (snd ?cf)) \<longrightarrow>
                  finalResponse (fst ?cu)
                    = Present (toString (finalResponse (fst ?cf)) @ handoffSentence))"
    using cstored csame csentence by blast
  show ?thesis
    unfolding Let_def using handoff concurrent by (rule conjI)
qed

text \<open>
  Instance: conversation \<open>c1\<close> is stored as green, the blended confidence is 0.4 and
  the update reports an error. Both workflows return red and the stored status stays
  green; the handoff workflow appends the sentence, the concurrent workflow does not.
\<close>

theorem failed_update_is_swallowed_witness:
  "updateReply (handoffTurn (Present 0.4) False found (Present 0.4) False oneSuggestion
                  UpdateError) \<noteq> UpdateOk
   \<and> updateReply (concurrentTurn (Present 0.4) False found (Present 0.4) False oneSuggestion
                    UpdateError) \<noteq> UpdateOk
   \<and> conversations (snd (runHandoffWorkflow
        (handoffTurn (Present 0.4) False found (Present 0.4) False oneSuggestion UpdateError)
        ''c1'' ''hi'' ''acme'' [] \<lparr>calls = [], conversations = [''c1'' \<mapsto> Green]\<rparr>)) ''c1''
       = Some Green
   \<and> currentStatus (fst (runHandoffWorkflow
        (handoffTurn (Present 0.4) False found (Present 0.4) False oneSuggestion UpdateError)
        ''c1'' ''hi'' ''acme'' [] \<lparr>calls = [], conversations = [''c1'' \<mapsto> Green]\<rparr>)) = Red
   \<and> finalResponse (fst (runHandoffWorkflow
        (handoffTurn (Present 0.4) False found (Present 0.4) False oneSuggestion UpdateError)
        ''c1'' ''hi'' ''acme'' [] \<lparr>calls = [], conversations = [''c1'' \<mapsto> Green]\<rparr>))
       = Present (''Here is what I found.'' @ handoffSentence)
   \<and> conversations (snd (runConcurrentWorkflow
        (concurrentTurn (Present 0.4) False found (Present 0.4) False oneSuggestion UpdateError)
        ''c1'' ''hi'' ''acme'' [] \<lparr>calls = [], conversations = [''c1'' \<mapsto> Green]\<rparr>)) ''c1''
       = Some Green
   \<and> currentStatus (fst (runConcurrentWorkflow
        (concurrentTurn (Present 0.4) False found (Present 0.4) False oneSuggestion UpdateError)
        ''c1'' ''hi'' ''acme'' [] \<lparr>calls = [], conversations = [''c1'' \<mapsto> Green]\<rparr>)) = Red"
  using failed_update_is_swallowed
    [where e = "handoffTurn (Present 0.4) False found (Present 0.4) False oneSuggestion
                  UpdateError"
       and ce = "concurrentTurn (Present 0.4) False found (Present 0.4) False oneSuggestion
                   UpdateError"
       and table = "[''c1'' \<mapsto> Green]"
       and cid = "''c1''" and userMessage = "''hi''" and company = "''acme''"
       and previousMessages = "[]"]
  by (simp add: handoff_eval concurrent_eval js_gt_def)

text \<open>
  C10 as stated fails in the concurrent workflow: after a failed update the red
  result is returned without the handoff sentence, while the stored status stays green.
\<close>

theorem failed_update_without_sentence:
  "currentStatus (fst (runConcurrentWorkflow
        (concurrentTurn (Present 0.4) False found (Present 0.4) False oneSuggestion UpdateError)
        ''c1'' ''hi'' ''acme'' [] greenWorld)) = Red
   \<and> finalResponse (fst (runConcurrentWorkflow
        (concurrentTurn (Present 0.4) False found (Present 0.4) False oneSuggestion UpdateError)
        ''c1'' ''hi'' ''acme'' [] greenWorld)) = Present ''Here is what I found.''
   \<and> conversations (snd (runConcurrentWorkflow
        (concurrentTurn (Present 0.4) False found (Present 0.4) False oneSuggestion UpdateError)
        ''c1'' ''hi'' ''acme'' [] greenWorld)) ''c1'' = Some Green"
  by (simp add: concurrent_eval js_gt_def greenWorld_def called_def)

end
